theory Spec2Isabelle
  imports Complex_Main
begin

section \<open>Python values\<close>

text \<open>
  A Python \<open>str\<close> is a sequence of Unicode code points and \<open>len\<close> counts code points.
  A string is therefore a list of code points, each a natural number; \<open>str\<close> turns an
  ASCII literal into such a list. A \<open>datetime\<close> is a number of microseconds on the local
  wall clock (the resolution of \<open>datetime.now()\<close>); writing it with \<open>isoformat()\<close> and
  reading it back with \<open>fromisoformat()\<close> gives the same instant, so the text form is
  kept only where it is printed. Python floats are read as real numbers.
\<close>

type_synonym pystr = "nat list"

type_synonym datetime = int

definition str :: "string \<Rightarrow> pystr" where
  "str s = map of_char s"

text \<open>
  The exceptions of the model. \<open>External\<close> carries whatever an external collaborator
  (search provider, fetcher, LLM, vector database) raised.
\<close>

datatype 'e error =
    External 'e
  | OverflowError
  | AttributeError
  | SearchAPIError pystr
  | ValidationError

text \<open>\<open>str.isspace()\<close> for one code point; the class \<open>\s\<close> of \<open>re\<close> on \<open>str\<close> is the same set.\<close>

definition isspace :: "nat \<Rightarrow> bool" where
  "isspace c \<longleftrightarrow>
     (9 \<le> c \<and> c \<le> 13) \<or> (28 \<le> c \<and> c \<le> 32) \<or> c = 133 \<or> c = 160 \<or> c = 5760 \<or>
     (8192 \<le> c \<and> c \<le> 8202) \<or> c = 8232 \<or> c = 8233 \<or> c = 8239 \<or> c = 8287 \<or> c = 12288"

text \<open>\<open>s.strip()\<close>.\<close>

definition strip :: "pystr \<Rightarrow> pystr" where
  "strip s = rev (dropWhile isspace (rev (dropWhile isspace s)))"

text \<open>\<open>s.split()\<close>: the maximal runs of non-whitespace, in order.\<close>

fun split_acc :: "pystr \<Rightarrow> pystr \<Rightarrow> pystr list" where
  "split_acc cur [] = (if cur = [] then [] else [cur])"
| "split_acc cur (c # cs) =
     (if isspace c then (if cur = [] then split_acc [] cs else cur # split_acc [] cs)
      else split_acc (cur @ [c]) cs)"

definition split_ws :: "pystr \<Rightarrow> pystr list" where
  "split_ws s = split_acc [] s"

text \<open>
  The slices \<open>xs[i:]\<close> and \<open>xs[:j]\<close>: a negative index counts from the end, and an index
  out of range is clamped.
\<close>

definition slice_from :: "'a list \<Rightarrow> int \<Rightarrow> 'a list" where
  "slice_from xs i =
     (let n = int (length xs);
          s = (if i < 0 then max 0 (n + i) else min i n)
      in drop (nat s) xs)"

definition slice_to :: "'a list \<Rightarrow> int \<Rightarrow> 'a list" where
  "slice_to xs j =
     (let n = int (length xs);
          e = (if j < 0 then max 0 (n + j) else min j n)
      in take (nat e) xs)"

text \<open>The decimal text of a natural number, as an f-string prints it.\<close>

fun show_nat :: "nat \<Rightarrow> pystr" where
  "show_nat n = (if n < 10 then [48 + n] else show_nat (n div 10) @ [48 + n mod 10])"

declare show_nat.simps [simp del]

text \<open>\<open>timedelta(hours=h)\<close> in microseconds; it raises beyond 999999999 days.\<close>

definition timedelta_hours :: "int \<Rightarrow> 'e error + int" where
  "timedelta_hours h =
     (if - 23999999976 \<le> h \<and> h \<le> 23999999999 then Inr (h * 3600000000)
      else Inl OverflowError)"

definition timedelta_days :: "int \<Rightarrow> int" where
  "timedelta_days d = d * 86400000000"

text \<open>\<open>s.startswith(p)\<close> and the substring test \<open>sub in s\<close>.\<close>

fun starts_with :: "pystr \<Rightarrow> pystr \<Rightarrow> bool" where
  "starts_with s [] = True"
| "starts_with [] (p # ps) = False"
| "starts_with (c # cs) (p # ps) = (c = p \<and> starts_with cs ps)"

fun py_in :: "pystr \<Rightarrow> pystr \<Rightarrow> bool" where
  "py_in sub [] = (sub = [])"
| "py_in sub (c # cs) = (starts_with (c # cs) sub \<or> py_in sub cs)"

text \<open>\<open>sep.join(parts)\<close>.\<close>

fun join :: "pystr \<Rightarrow> pystr list \<Rightarrow> pystr" where
  "join sep [] = []"
| "join sep [p] = p"
| "join sep (p # q # ps) = p @ sep @ join sep (q # ps)"

section \<open>Regular expressions of the source\<close>

text \<open>
  Each regular expression the modelled code uses is written out as a function on code
  points that gives what \<open>re.sub\<close> or \<open>re.split\<close> gives for it (leftmost matches, greedy
  with backtracking). Newline is the code point 10, space 32, tab 9.
\<close>

text \<open>
  \<open>re.sub(P+, ' ', text)\<close> for a class \<open>P\<close> of single code points: every maximal run
  of \<open>P\<close> becomes one space. The flag says that the scan is inside a run.
\<close>

fun sub_runs_acc :: "(nat \<Rightarrow> bool) \<Rightarrow> bool \<Rightarrow> pystr \<Rightarrow> pystr" where
  "sub_runs_acc P in_run [] = []"
| "sub_runs_acc P in_run (c # cs) =
     (if P c then (if in_run then sub_runs_acc P True cs else 32 # sub_runs_acc P True cs)
      else c # sub_runs_acc P False cs)"

text \<open>\<open>re.sub(r'\s+', ' ', text)\<close> and \<open>re.sub(r'[ \t]+', ' ', text)\<close>.\<close>

definition sub_whitespace :: "pystr \<Rightarrow> pystr" where
  "sub_whitespace text = sub_runs_acc isspace False text"

definition sub_spaces_tabs :: "pystr \<Rightarrow> pystr" where
  "sub_spaces_tabs text = sub_runs_acc (\<lambda>c. c = 32 \<or> c = 9) False text"

text \<open>
  The patterns \<open>\n\s*\n\<close> and \<open>\n\s*\n\s*\n+\<close> match inside one maximal run of whitespace:
  from its first newline through its last, when the run holds at least \<open>k\<close> newlines
  (\<open>k\<close> is 2 or 3); the whitespace of the run before its first newline and after its last
  is outside the match, and a run has at most one match.
\<close>

definition count_newlines :: "pystr \<Rightarrow> nat" where
  "count_newlines run = length (filter (\<lambda>c. c = 10) run)"

definition before_first_newline :: "pystr \<Rightarrow> pystr" where
  "before_first_newline run = takeWhile (\<lambda>c. c \<noteq> 10) run"

definition after_last_newline :: "pystr \<Rightarrow> pystr" where
  "after_last_newline run = rev (takeWhile (\<lambda>c. c \<noteq> 10) (rev run))"

definition sub_in_run :: "nat \<Rightarrow> pystr \<Rightarrow> pystr" where
  "sub_in_run k run =
     (if count_newlines run \<ge> k
      then before_first_newline run @ [10, 10] @ after_last_newline run
      else run)"

fun sub_blank_acc :: "nat \<Rightarrow> pystr \<Rightarrow> pystr \<Rightarrow> pystr" where
  "sub_blank_acc k run [] = sub_in_run k run"
| "sub_blank_acc k run (c # cs) =
     (if isspace c then sub_blank_acc k (run @ [c]) cs
      else sub_in_run k run @ c # sub_blank_acc k [] cs)"

text \<open>\<open>re.sub(r'\n\s*\n', '\n\n', text)\<close> and \<open>re.sub(r'\n\s*\n\s*\n+', '\n\n', text)\<close>.\<close>

definition sub_blank_line :: "pystr \<Rightarrow> pystr" where
  "sub_blank_line text = sub_blank_acc 2 [] text"

definition sub_blank_lines :: "pystr \<Rightarrow> pystr" where
  "sub_blank_lines text = sub_blank_acc 3 [] text"

text \<open>\<open>re.split(r'\n\s*\n', text)\<close>: the pieces around the same matches.\<close>

fun split_blank_acc :: "pystr \<Rightarrow> pystr \<Rightarrow> pystr \<Rightarrow> pystr list" where
  "split_blank_acc cur run [] =
     (if count_newlines run \<ge> 2 then [cur @ before_first_newline run, after_last_newline run]
      else [cur @ run])"
| "split_blank_acc cur run (c # cs) =
     (if isspace c then split_blank_acc cur (run @ [c]) cs
      else if count_newlines run \<ge> 2
        then (cur @ before_first_newline run) # split_blank_acc (after_last_newline run @ [c]) [] cs
        else split_blank_acc (cur @ run @ [c]) [] cs)"

definition split_paragraphs :: "pystr \<Rightarrow> pystr list" where
  "split_paragraphs text = split_blank_acc [] [] text"

text \<open>
  \<open>re.sub(r'\n{3,}', '\n\n', text)\<close>: a maximal run of three or more newlines becomes
  two. The number counts the newlines of the run being read.
\<close>

fun sub_newlines_acc :: "nat \<Rightarrow> pystr \<Rightarrow> pystr" where
  "sub_newlines_acc n [] = replicate (if n \<ge> 3 then 2 else n) 10"
| "sub_newlines_acc n (c # cs) =
     (if c = 10 then sub_newlines_acc (n + 1) cs
      else replicate (if n \<ge> 3 then 2 else n) 10 @ c # sub_newlines_acc 0 cs)"

definition sub_newlines :: "pystr \<Rightarrow> pystr" where
  "sub_newlines text = sub_newlines_acc 0 text"

text \<open>
  \<open>re.split(r'[.!?]+(?:\s|$)', text)\<close>: a maximal run of \<open>.\<close>, \<open>!\<close>, \<open>?\<close> is a match,
  with the whitespace after it, when one whitespace or the end of the text follows it.
\<close>

definition is_sentence_end :: "nat \<Rightarrow> bool" where
  "is_sentence_end c \<longleftrightarrow> c = 46 \<or> c = 33 \<or> c = 63"

fun split_sentences_acc :: "pystr \<Rightarrow> pystr \<Rightarrow> pystr \<Rightarrow> pystr list" where
  "split_sentences_acc cur run [] = (if run \<noteq> [] then [cur, []] else [cur])"
| "split_sentences_acc cur run (c # cs) =
     (if is_sentence_end c then split_sentences_acc cur (run @ [c]) cs
      else if run \<noteq> [] \<and> isspace c then cur # split_sentences_acc [] [] cs
      else split_sentences_acc (cur @ run @ [c]) [] cs)"

definition split_sentences :: "pystr \<Rightarrow> pystr list" where
  "split_sentences text = split_sentences_acc [] [] text"

text \<open>\<open>s.split(d)\<close> for a single code point \<open>d\<close>: empty pieces are kept.\<close>

fun split_on :: "nat \<Rightarrow> pystr \<Rightarrow> pystr list" where
  "split_on d [] = [[]]"
| "split_on d (c # cs) =
     (if c = d then [] # split_on d cs
      else (case split_on d cs of
              [] \<Rightarrow> [[c]]
            | piece # pieces \<Rightarrow> (c # piece) # pieces))"

section \<open>The memory system (memory\_system.py)\<close>

subsection \<open>VectorMemoryManager\<close>

text \<open>
  The vector store keeps, beside the database collection, the set \<open>content_hashes\<close>
  of the MD5 digests of what it stored. MD5 is a parameter \<open>md5\<close>. The identifier
  \<open>{source}_{hash[:8]}_{timestamp}\<close> of a stored item is kept as the triple of its parts.
  Adding to the collection is the database's business and may raise: it is the
  parameter \<open>coll_add\<close>. Every reading of the clock within one call is \<open>now\<close>.
\<close>

record item_metadata =
  md_title :: pystr
  md_url :: pystr
  md_source :: pystr
  md_timestamp :: datetime
  md_content_hash :: pystr
  md_word_count :: nat

record stored_item =
  item_id :: "pystr \<times> pystr \<times> datetime"
  item_document :: pystr
  item_metadata :: item_metadata

record vector_memory =
  content_hashes :: "pystr set"
  collection :: "stored_item list"

record add_stats =
  added :: nat
  skipped :: nat
  total_in_db :: nat

type_synonym pydict = "pystr \<rightharpoonup> pystr"

definition dict_get :: "pydict \<Rightarrow> pystr \<Rightarrow> pystr \<Rightarrow> pystr" where
  "dict_get d k dflt = (case d k of None \<Rightarrow> dflt | Some v \<Rightarrow> v)"

definition is_duplicate :: "(pystr \<Rightarrow> pystr) \<Rightarrow> vector_memory \<Rightarrow> pystr \<Rightarrow> bool" where
  "is_duplicate md5 vm content \<longleftrightarrow> md5 content \<in> content_hashes vm"

text \<open>
  The loop of \<open>add_documents\<close>: the state is the hash set, the batch collected so far
  and the two counters.
\<close>

fun add_documents_loop ::
  "(pystr \<Rightarrow> pystr) \<Rightarrow> datetime \<Rightarrow> pystr \<Rightarrow> bool \<Rightarrow> pydict list \<Rightarrow>
   pystr set \<times> stored_item list \<times> nat \<times> nat \<Rightarrow> pystr set \<times> stored_item list \<times> nat \<times> nat" where
  "add_documents_loop md5 now source check_duplicates [] st = st"
| "add_documents_loop md5 now source check_duplicates (doc # docs) (hashes, batch, n_added, n_skipped) =
     (let content = dict_get doc (str ''content'') [] in
      if check_duplicates \<and> md5 content \<in> hashes
      then add_documents_loop md5 now source check_duplicates docs
             (hashes, batch, n_added, n_skipped + 1)
      else
        let content_hash = md5 content;
            doc_id = (source, take 8 content_hash, now);
            metadata = \<lparr> md_title = dict_get doc (str ''title'') (str ''Sans titre''),
                         md_url = dict_get doc (str ''url'') [],
                         md_source = source,
                         md_timestamp = now,
                         md_content_hash = content_hash,
                         md_word_count = length (split_ws content) \<rparr>;
            item = \<lparr> item_id = doc_id, item_document = content, item_metadata = metadata \<rparr>
        in add_documents_loop md5 now source check_duplicates docs
             (insert content_hash hashes, batch @ [item], n_added + 1, n_skipped))"

text \<open>
  \<open>add_documents\<close> returns the updated memory together with the statistics, or with the
  exception of the database: the hash set has been updated by then.
\<close>

definition add_documents ::
  "(pystr \<Rightarrow> pystr) \<Rightarrow> (stored_item list \<Rightarrow> stored_item list \<Rightarrow> 'e error + stored_item list) \<Rightarrow>
   datetime \<Rightarrow> vector_memory \<Rightarrow> pydict list \<Rightarrow> pystr \<Rightarrow> bool \<Rightarrow>
   vector_memory \<times> ('e error + add_stats)" where
  "add_documents md5 coll_add now vm documents source check_duplicates =
     (case add_documents_loop md5 now source check_duplicates documents
             (content_hashes vm, [], 0, 0) of
        (hashes, batch, n_added, n_skipped) \<Rightarrow>
          let vm1 = vm\<lparr>content_hashes := hashes\<rparr> in
          if batch \<noteq> [] then
            (case coll_add (collection vm1) batch of
               Inl e \<Rightarrow> (vm1, Inl e)
             | Inr coll \<Rightarrow>
                 (vm1\<lparr>collection := coll\<rparr>,
                  Inr \<lparr> added = n_added, skipped = n_skipped, total_in_db = length coll \<rparr>))
          else
            (vm1, Inr \<lparr> added = n_added, skipped = n_skipped,
                         total_in_db = length (collection vm1) \<rparr>))"

subsection \<open>AgentMemoryManager\<close>

text \<open>
  A conversation entry holds the text of its timestamp (\<open>isoformat\<close> is a parameter
  where it is written) and its metadata, a dictionary kept as an association list.
  The conversation history is a \<open>deque\<close> bounded by \<open>max_history\<close>. The research
  cache maps a topic to a result and the instant it was stored.
\<close>

record conversation =
  conv_timestamp :: pystr
  conv_user :: pystr
  conv_assistant :: pystr
  conv_metadata :: "(pystr \<times> int) list"

record 'r agent_memory =
  max_history :: nat
  compression_threshold :: nat
  conversation_history :: "conversation list"
  research_cache :: "pystr \<rightharpoonup> ('r \<times> datetime)"
  summary_cache :: "pystr \<rightharpoonup> (pystr \<times> datetime)"
  topic_keywords :: "pystr \<rightharpoonup> pystr list"

text \<open>\<open>deque(maxlen=m).append(x)\<close>: the oldest entries leave when the bound is passed.\<close>

definition deque_append :: "nat \<Rightarrow> 'a list \<Rightarrow> 'a \<Rightarrow> 'a list" where
  "deque_append m xs x = drop (length (xs @ [x]) - m) (xs @ [x])"

text \<open>
  \<open>_compress_memory\<close> drops the cached researches older than seven days, with their
  keywords.
\<close>

definition compress_memory :: "datetime \<Rightarrow> 'r agent_memory \<Rightarrow> 'r agent_memory" where
  "compress_memory now am =
     (let cutoff = now - timedelta_days 7;
          old = (\<lambda>topic. case research_cache am topic of
                            None \<Rightarrow> False | Some (r, t) \<Rightarrow> t < cutoff)
      in am\<lparr> research_cache := (\<lambda>topic. if old topic then None else research_cache am topic),
              topic_keywords := (\<lambda>topic. if old topic then None else topic_keywords am topic) \<rparr>)"

definition add_conversation ::
  "(datetime \<Rightarrow> pystr) \<Rightarrow> datetime \<Rightarrow> pystr \<Rightarrow> pystr \<Rightarrow> (pystr \<times> int) list \<Rightarrow>
   'r agent_memory \<Rightarrow> 'r agent_memory" where
  "add_conversation isoformat now user_message assistant_response metadata am =
     (let entry = \<lparr> conv_timestamp = isoformat now, conv_user = user_message,
                      conv_assistant = assistant_response, conv_metadata = metadata \<rparr>;
          am1 = am\<lparr>conversation_history :=
                     deque_append (max_history am) (conversation_history am) entry\<rparr>
      in if length (conversation_history am1) \<ge> compression_threshold am1
         then compress_memory now am1 else am1)"

definition add_research_result ::
  "datetime \<Rightarrow> pystr \<Rightarrow> 'r \<Rightarrow> pystr list \<Rightarrow> 'r agent_memory \<Rightarrow> 'r agent_memory" where
  "add_research_result now topic result keywords am =
     am\<lparr> research_cache := (research_cache am)(topic \<mapsto> (result, now)),
         topic_keywords := (topic_keywords am)(topic \<mapsto> keywords) \<rparr>"

text \<open>
  \<open>get_research_result\<close>: \<open>None\<close> for a topic that is not cached or whose entry is older
  than \<open>max_age_hours\<close>; the comparison is strict, as in the source.
\<close>

definition get_research_result ::
  "datetime \<Rightarrow> pystr \<Rightarrow> int \<Rightarrow> 'r agent_memory \<Rightarrow> 'e error + 'r option" where
  "get_research_result now topic max_age_hours am =
     (case research_cache am topic of
        None \<Rightarrow> Inr None
      | Some (result, cached_time) \<Rightarrow>
          (case timedelta_hours max_age_hours of
             Inl e \<Rightarrow> Inl e
           | Inr max_age \<Rightarrow>
               if now - cached_time > max_age then Inr None else Inr (Some result)))"

subsection \<open>The tool get\_research\_history (memory\_integration.py)\<close>

text \<open>
  The text of a metadata dictionary in an f-string is its \<open>repr\<close>, the parameter
  \<open>dict_repr\<close>. The loop numbers the entries from 1.
\<close>

fun format_history :: "((pystr \<times> int) list \<Rightarrow> pystr) \<Rightarrow> nat \<Rightarrow> conversation list \<Rightarrow> pystr" where
  "format_history dict_repr i [] = []"
| "format_history dict_repr i (conv # rest) =
     str ''[Recherche '' @ show_nat i @ str ''] - '' @ conv_timestamp conv @ [10]
     @ str ''Topic: '' @ slice_to (conv_user conv) 100 @ [10]
     @ (if conv_metadata conv \<noteq> []
        then str ''D'' @ [233] @ str ''tails: '' @ dict_repr (conv_metadata conv) @ [10]
        else [])
     @ [10]
     @ format_history dict_repr (Suc i) rest"

definition history_header :: "nat \<Rightarrow> pystr" where
  "history_header n =
     [128218] @ str '' Historique des '' @ show_nat n @ str '' derni'' @ [232]
     @ str ''res recherches:'' @ [10, 10]"

definition get_research_history ::
  "((pystr \<times> int) list \<Rightarrow> pystr) \<Rightarrow> int \<Rightarrow> 'r agent_memory \<Rightarrow> pystr" where
  "get_research_history dict_repr n_last am =
     (let history = slice_from (conversation_history am) (- n_last) in
      if history = [] then str ''Aucun historique de recherche disponible.''
      else history_header (length history) @ format_history dict_repr 1 history)"

section \<open>The Researcher (researcher\_agent.py, search\_api.py)\<close>

record research_query =
  rq_topic :: pystr
  rq_keywords :: "pystr list"
  rq_max_results :: int
  rq_search_depth :: pystr
  rq_date_range :: "pystr option"

text \<open>The constraints pydantic checks when a \<open>ResearchQuery\<close> is built.\<close>

definition valid_research_query :: "research_query \<Rightarrow> bool" where
  "valid_research_query q \<longleftrightarrow> 1 \<le> rq_max_results q \<and> rq_max_results q \<le> 20"

record search_result =
  sr_title :: pystr
  sr_url :: pystr
  sr_snippet :: pystr
  sr_published_date :: "datetime option"
  sr_author :: "pystr option"
  sr_source :: "pystr option"
  sr_score :: "real option"
  sr_tags :: "pystr list"

text \<open>
  \<open>ResearchOutput\<close>, without its two readings of the clock (\<open>search_time\<close>,
  \<open>timestamp\<close>).
\<close>

record research_output =
  ro_query :: research_query
  ro_results :: "search_result list"
  ro_total_found :: nat
  ro_search_engine :: pystr

text \<open>
  A search provider takes the query, the number of results and the search depth, and
  returns its results or raises. The registry \<open>apis\<close> of \<open>SearchAPIManager\<close> is a
  dictionary in registration order.
\<close>

type_synonym 'e search_api = "pystr \<Rightarrow> int \<Rightarrow> pystr \<Rightarrow> 'e error + search_result list"

fun search_loop ::
  "(pystr \<times> 'e search_api) list \<Rightarrow> pystr list \<Rightarrow> pystr \<Rightarrow> int \<Rightarrow> pystr \<Rightarrow> search_result list option" where
  "search_loop apis [] query n depth = None"
| "search_loop apis (api_name # rest) query n depth =
     (case map_of apis api_name of
        None \<Rightarrow> search_loop apis rest query n depth
      | Some api \<Rightarrow>
          (case api query n depth of
             Inr results \<Rightarrow>
               if results \<noteq> [] then Some results else search_loop apis rest query n depth
           | Inl e \<Rightarrow> search_loop apis rest query n depth))"

definition api_order :: "(pystr \<times> 'e search_api) list \<Rightarrow> pystr \<Rightarrow> pystr list" where
  "api_order apis preferred_api = preferred_api # filter (\<lambda>api. api \<noteq> preferred_api) (map fst apis)"

definition search ::
  "(pystr \<times> 'e search_api) list \<Rightarrow> pystr \<Rightarrow> int \<Rightarrow> pystr \<Rightarrow> pystr \<Rightarrow> 'e error + search_result list" where
  "search apis query n preferred_api depth =
     (case search_loop apis (api_order apis preferred_api) query n depth of
        Some results \<Rightarrow> Inr results
      | None \<Rightarrow>
          Inl (SearchAPIError ([201] @ str ''chec de recherche avec toutes les APIs pour: '' @ query)))"

text \<open>\<open>str.lower()\<close> is the parameter \<open>lower\<close> of what follows.\<close>

definition prepare_search_query :: "(pystr \<Rightarrow> pystr) \<Rightarrow> research_query \<Rightarrow> pystr" where
  "prepare_search_query lower q =
     (let unique_keywords = filter (\<lambda>kw. \<not> py_in (lower kw) (lower (rq_topic q))) (rq_keywords q);
          search_terms = [rq_topic q] @ (if rq_keywords q \<noteq> [] then unique_keywords else []);
          q0 = join (str '' '') search_terms;
          q1 = (if rq_search_depth q = str ''advanced''
                    \<and> (py_in (str ''intelligence artificielle'') (lower q0) \<or> py_in (str ''ia'') (lower q0))
                then q0 @ str '' 2024 2025 r'' @ [233] @ str ''cent'' else q0);
          q2 = (if rq_search_depth q = str ''advanced''
                    \<and> (py_in (str ''emploi'') (lower q1) \<or> py_in (str ''travail'') (lower q1))
                then q1 @ str '' march'' @ [233] @ str '' impact'' else q1)
      in strip q2)"

definition count_matches :: "pystr list \<Rightarrow> pystr \<Rightarrow> nat" where
  "count_matches terms text = length (filter (\<lambda>t. py_in t text) terms)"

definition calculate_relevance_score ::
  "(pystr \<Rightarrow> pystr) \<Rightarrow> datetime \<Rightarrow> search_result \<Rightarrow> pystr list \<Rightarrow> real" where
  "calculate_relevance_score lower now result scoring_terms =
     (let text_to_analyze = lower (sr_title result @ str '' '' @ sr_snippet result);
          term_matches = count_matches scoring_terms text_to_analyze;
          score1 = (if scoring_terms \<noteq> []
                    then 0 + (real term_matches / real (length scoring_terms)) * 0.6 else 0);
          title_matches = count_matches scoring_terms (lower (sr_title result));
          score2 = (if scoring_terms \<noteq> []
                    then score1 + (real title_matches / real (length scoring_terms)) * 0.3
                    else score1);
          score3 = (case sr_published_date result of
                      None \<Rightarrow> score2
                    | Some published \<Rightarrow>
                        let days_old = (now - published) div 86400000000 in
                        if days_old \<le> 365
                        then score2 + max 0 (1 - real_of_int days_old / 365) * 0.1
                        else score2);
          score4 = (case sr_score result of
                      None \<Rightarrow> score3
                    | Some api_score \<Rightarrow>
                        if api_score \<noteq> 0 \<and> api_score > 0 then (score3 + api_score) / 2 else score3)
      in min score4 1)"

definition score_or_0 :: "search_result \<Rightarrow> real" where
  "score_or_0 r = (case sr_score r of None \<Rightarrow> 0 | Some s \<Rightarrow> s)"

definition filter_and_rank_results ::
  "(pystr \<Rightarrow> pystr) \<Rightarrow> datetime \<Rightarrow> search_result list \<Rightarrow> pystr \<Rightarrow> pystr list \<Rightarrow> search_result list" where
  "filter_and_rank_results lower now results tpc kws =
     (if results = [] then []
      else
        let scoring_terms = [lower tpc] @ map lower kws;
            scored_results =
              map (\<lambda>r. r\<lparr>sr_score := Some (calculate_relevance_score lower now r scoring_terms)\<rparr>)
                results;
            sorted_results = sort_key (\<lambda>r. - score_or_0 r) scored_results;
            min_score = 0.1
        in filter (\<lambda>r. score_or_0 r \<ge> min_score) sorted_results)"

definition researcher_process ::
  "(pystr \<Rightarrow> pystr) \<Rightarrow> datetime \<Rightarrow> (pystr \<times> 'e search_api) list \<Rightarrow> research_query \<Rightarrow>
   'e error + research_output" where
  "researcher_process lower now apis input_data =
     (let search_query = prepare_search_query lower input_data;
          preferred_api = str ''tavily''
      in case search apis search_query (rq_max_results input_data) preferred_api
                (rq_search_depth input_data) of
           Inl e \<Rightarrow> Inl e
         | Inr results \<Rightarrow>
             let filtered_results =
                   filter_and_rank_results lower now results (rq_topic input_data) (rq_keywords input_data);
                 final_results = slice_to filtered_results (rq_max_results input_data)
             in Inr \<lparr> ro_query = input_data, ro_results = final_results,
                      ro_total_found = length results, ro_search_engine = preferred_api \<rparr>)"

text \<open>
  A provider is passed over by the search when it is not registered, raises or returns
  an empty list.
\<close>

definition provider_fails ::
  "(pystr \<times> 'e search_api) list \<Rightarrow> pystr \<Rightarrow> int \<Rightarrow> pystr \<Rightarrow> pystr \<Rightarrow> bool" where
  "provider_fails apis query n depth api_name =
     (case map_of apis api_name of
        None \<Rightarrow> True
      | Some api \<Rightarrow> (case api query n depth of Inl e \<Rightarrow> True | Inr results \<Rightarrow> results = []))"

section \<open>Documents, summaries and reports (models/)\<close>

datatype document_type = ARTICLE | BLOG_POST | ACADEMIC_PAPER | NEWS | REPORT | OTHER

record document =
  doc_title :: pystr
  doc_url :: pystr
  doc_content :: pystr
  doc_type :: document_type
  doc_author :: "pystr option"
  doc_published_date :: "datetime option"
  doc_source :: "pystr option"
  doc_word_count :: nat
  doc_language :: pystr

text \<open>\<open>ExtractionResult\<close>, without its execution time and its statistics.\<close>

record extraction_result =
  er_documents :: "document list"
  er_total_urls :: nat
  er_successful_extractions :: nat
  er_failed_extractions :: nat
  er_failed_urls :: "pystr list"

text \<open>
  \<open>DocumentSummary\<close> and \<open>SummarizationOutput\<close>, with the fields the synthesis and the
  memory read; key points, citations and processing times are left out.
\<close>

record document_summary =
  ds_document_id :: pystr
  ds_title :: pystr
  ds_url :: pystr
  ds_executive_summary :: pystr
  ds_detailed_summary :: pystr
  ds_sentiment :: "pystr option"
  ds_credibility_score :: "real option"

text \<open>The constraint pydantic checks on \<open>credibility_score\<close> (\<open>ge=0, le=1\<close>).\<close>

definition valid_document_summary :: "document_summary \<Rightarrow> bool" where
  "valid_document_summary s \<longleftrightarrow>
     (case ds_credibility_score s of None \<Rightarrow> True | Some c \<Rightarrow> 0 \<le> c \<and> c \<le> 1)"

record summarization_output =
  so_summaries :: "document_summary list"
  so_total_documents :: nat
  so_average_credibility :: "real option"
  so_common_themes :: "pystr list"
  so_consensus_points :: "pystr list"
  so_conflicting_views :: "pystr list"

record report_section =
  rs_title :: pystr
  rs_content :: pystr
  rs_order :: int

record source_reference =
  ref_title :: pystr
  ref_url :: pystr
  ref_author :: "pystr option"
  ref_publication_date :: "datetime option"
  ref_credibility_score :: "real option"
  ref_citation_count :: int

text \<open>
  \<open>FinalReport\<close>, without the fields that are text written around the LLM's answers or
  readings of the clock (identifier, title, executive summary, introduction, conclusion,
  methodology, word count, times). The model declares no field \<open>formatted_outputs\<close>:
  the renderings are a field of \<open>GlobalSynthesisOutput\<close>.
\<close>

record final_report =
  fr_topic :: pystr
  fr_main_sections :: "report_section list"
  fr_key_themes :: "pystr list"
  fr_consensus_points :: "pystr list"
  fr_conflicting_viewpoints :: "pystr list"
  fr_emerging_trends :: "pystr list"
  fr_sources :: "source_reference list"
  fr_confidence_score :: real
  fr_completeness_score :: real
  fr_total_sources_analyzed :: nat

record global_synthesis_output =
  gs_final_report :: final_report
  gs_formatted_outputs :: pydict

section \<open>The Global Synthesizer (global\_synthesizer\_agent.py)\<close>

text \<open>The dictionary \<open>_assess_quality\<close> returns has these four keys.\<close>

record quality_scores =
  confidence_score :: real
  completeness_score :: real
  reliability_score :: real
  coherence_score :: real

text \<open>
  The list comprehension \<open>[s.credibility_score for s in summaries if s.credibility_score]\<close>
  keeps the scores that are present and not zero.
\<close>

definition credibility_scores :: "document_summary list \<Rightarrow> real list" where
  "credibility_scores summaries =
     concat (map (\<lambda>s. case ds_credibility_score s of
                          None \<Rightarrow> []
                        | Some c \<Rightarrow> if c \<noteq> 0 then [c] else []) summaries)"

definition assess_quality :: "document_summary list \<Rightarrow> report_section list \<Rightarrow> quality_scores" where
  "assess_quality summaries sections =
     (let scores = credibility_scores summaries;
          completeness = min (real (length summaries) / 5.0) 1.0;
          reliability = (if scores \<noteq> [] then sum_list scores / real (length scores) else 0.5);
          coherence = min (real (length sections) / 3.0) 1.0;
          confidence = completeness * 0.4 + reliability * 0.4 + coherence * 0.2
      in \<lparr> confidence_score = confidence, completeness_score = completeness,
           reliability_score = reliability, coherence_score = coherence \<rparr>)"

definition create_source_references :: "document_summary list \<Rightarrow> source_reference list" where
  "create_source_references summaries =
     map (\<lambda>summary. \<lparr> ref_title = ds_title summary, ref_url = ds_url summary,
                        ref_author = None, ref_publication_date = None,
                        ref_credibility_score = ds_credibility_score summary,
                        ref_citation_count = 1 \<rparr>) summaries"

text \<open>
  \<open>_assemble_final_report\<close>. Building the \<open>FinalReport\<close> raises a validation error when
  \<open>confidence_score\<close> or \<open>completeness_score\<close> is outside \<open>[0, 1]\<close> (\<open>ge=0.0, le=1.0\<close>).
\<close>

definition assemble_final_report ::
  "pystr \<Rightarrow> summarization_output \<Rightarrow> report_section list \<Rightarrow> source_reference list \<Rightarrow>
   quality_scores \<Rightarrow> 'e error + final_report" where
  "assemble_final_report original_topic summarization_output sections source_references scores =
     (if 0 \<le> confidence_score scores \<and> confidence_score scores \<le> 1
         \<and> 0 \<le> completeness_score scores \<and> completeness_score scores \<le> 1
      then Inr \<lparr> fr_topic = original_topic,
                 fr_main_sections = sections,
                 fr_key_themes = slice_to (so_common_themes summarization_output) 10,
                 fr_consensus_points = slice_to (so_consensus_points summarization_output) 10,
                 fr_conflicting_viewpoints = slice_to (so_conflicting_views summarization_output) 10,
                 fr_emerging_trends = [],
                 fr_sources = source_references,
                 fr_confidence_score = confidence_score scores,
                 fr_completeness_score = completeness_score scores,
                 fr_total_sources_analyzed = length source_references \<rparr>
      else Inl ValidationError)"

text \<open>
  Steps 5 to 7 of \<open>GlobalSynthesizerAgent.process\<close>, for the sections that the LLM calls
  of steps 2 and 3 produced: source references, quality scores, final report.
\<close>

definition process_report ::
  "pystr \<Rightarrow> summarization_output \<Rightarrow> report_section list \<Rightarrow> 'e error + final_report" where
  "process_report original_topic summarization_output report_sections =
     (let source_references = create_source_references (so_summaries summarization_output);
          scores = assess_quality (so_summaries summarization_output) report_sections
      in assemble_final_report original_topic summarization_output report_sections
           source_references scores)"

section \<open>The pipeline (memory\_integration.py, IntegratedMemorySystem)\<close>

record 'r memory_system =
  vector_memory :: vector_memory
  agent_memory :: "'r agent_memory"

text \<open>
  What the pipeline calls and this development does not look into: the conversion
  \<open>int(s)\<close> (\<open>None\<close> where it raises \<open>ValueError\<close>), the text \<open>str(x)\<close> of a
  \<open>GlobalSynthesisOutput\<close>, the semantic search behind
  \<open>get_relevant_context\<close>, the keyword extraction of the Researcher (it catches every
  exception and falls back), and the four stages, each returning its output or raising.
\<close>

record 'e collaborators =
  int_of_str :: "pystr \<Rightarrow> int option"
  str_of_synthesis :: "global_synthesis_output \<Rightarrow> pystr"
  get_relevant_context :: "vector_memory \<Rightarrow> pystr \<Rightarrow> 'e error + pystr"
  extract_keywords_with_llm :: "pystr \<Rightarrow> pystr list"
  researcher :: "research_query \<Rightarrow> 'e error + research_output"
  content_extractor :: "research_output \<Rightarrow> 'e error + extraction_result"
  summarizer :: "extraction_result \<Rightarrow> 'e error + summarization_output"
  global_synthesizer :: "summarization_output \<Rightarrow> 'e error + global_synthesis_output"

text \<open>
  The expression \<open>x.final_report.formatted_outputs\<close>: \<open>FinalReport\<close> declares no such
  field, and reading an attribute a pydantic model does not have raises
  \<open>AttributeError\<close>.
\<close>

definition final_report_formatted_outputs :: "final_report \<Rightarrow> 'e error + pydict" where
  "final_report_formatted_outputs report = Inl AttributeError"

definition document_dict :: "pystr \<Rightarrow> pystr \<Rightarrow> pystr \<Rightarrow> pydict" where
  "document_dict content title url =
     [str ''content'' \<mapsto> content, str ''title'' \<mapsto> title, str ''url'' \<mapsto> url]"

text \<open>The keywords of step 4: the first ten words of the heads of the first three documents.\<close>

definition cache_keywords :: "document list \<Rightarrow> pystr list" where
  "cache_keywords documents =
     (let all_text = join (str '' '') (map (\<lambda>doc. slice_to (doc_content doc) 100)
                                           (slice_to documents 3))
      in remdups (slice_to (split_ws all_text) 10))"

text \<open>
  \<open>process_research_result\<close> returns the memory as it has become and, when it raises, the
  exception. The clock reads \<open>now\<close> throughout.
\<close>

definition process_research_result ::
  "(pystr \<Rightarrow> pystr) \<Rightarrow> (stored_item list \<Rightarrow> stored_item list \<Rightarrow> 'e error + stored_item list) \<Rightarrow>
   datetime \<Rightarrow> pystr \<Rightarrow> extraction_result \<Rightarrow> summarization_output \<Rightarrow> global_synthesis_output \<Rightarrow>
   global_synthesis_output memory_system \<Rightarrow>
   global_synthesis_output memory_system \<times> ('e error + unit)" where
  "process_research_result md5 coll_add now tpc extraction_result summarization_result
       global_synthesis ms =
     (let docs_to_store =
            map (\<lambda>doc. document_dict (doc_content doc) (doc_title doc) (doc_url doc))
              (er_documents extraction_result)
      in case add_documents md5 coll_add now (vector_memory ms) docs_to_store (str ''research'') True of
           (vm1, Inl e) \<Rightarrow> (ms\<lparr>vector_memory := vm1\<rparr>, Inl e)
         | (vm1, Inr stats1) \<Rightarrow>
     (let summaries_to_store =
            map (\<lambda>summary. document_dict (ds_detailed_summary summary) (ds_title summary)
                              (ds_url summary))
              (so_summaries summarization_result)
      in case add_documents md5 coll_add now vm1 summaries_to_store (str ''summary'') True of
           (vm2, Inl e) \<Rightarrow> (ms\<lparr>vector_memory := vm2\<rparr>, Inl e)
         | (vm2, Inr stats2) \<Rightarrow>
     (case final_report_formatted_outputs (gs_final_report global_synthesis) of
        Inl e \<Rightarrow> (ms\<lparr>vector_memory := vm2\<rparr>, Inl e)
      | Inr formatted_outputs \<Rightarrow>
     (let synthesis_text = dict_get formatted_outputs (str ''text'') [] in
      case add_documents md5 coll_add now vm2
             [document_dict synthesis_text (str ''Synth'' @ [232] @ str ''se: '' @ tpc) []]
             (str ''synthesis'') True of
        (vm3, Inl e) \<Rightarrow> (ms\<lparr>vector_memory := vm3\<rparr>, Inl e)
      | (vm3, Inr stats3) \<Rightarrow>
          (ms\<lparr> vector_memory := vm3,
                agent_memory :=
                  add_research_result now tpc global_synthesis
                    (cache_keywords (er_documents extraction_result)) (agent_memory ms) \<rparr>,
           Inr ())))))"

text \<open>
  \<open>retrieve_context_for_query\<close>. Of the four entries of the context, the conversation
  context and the related topics are computed without effect or exception and are only
  printed; the model keeps the other two.
\<close>

record query_context =
  ctx_semantic_context :: pystr
  ctx_cached_result :: "global_synthesis_output option"

definition retrieve_context_for_query ::
  "'e collaborators \<Rightarrow> datetime \<Rightarrow> pystr \<Rightarrow> bool \<Rightarrow> global_synthesis_output memory_system \<Rightarrow>
   'e error + query_context" where
  "retrieve_context_for_query cs now query use_cache ms =
     (case (if use_cache then get_research_result now query 24 (agent_memory ms) else Inr None) of
        Inl e \<Rightarrow> Inl e
      | Inr cached \<Rightarrow>
          (case get_relevant_context cs (vector_memory ms) query of
             Inl e \<Rightarrow> Inl e
           | Inr sem \<Rightarrow> Inr \<lparr> ctx_semantic_context = sem, ctx_cached_result = cached \<rparr>))"

text \<open>
  The duplicate check of the pipeline: every document is looked up in the hash set of
  the memory; the hash set is not changed by the check.
\<close>

definition check_duplicates_step ::
  "(pystr \<Rightarrow> pystr) \<Rightarrow> vector_memory \<Rightarrow> extraction_result \<Rightarrow> extraction_result" where
  "check_duplicates_step md5 vm extraction_data =
     (if er_documents extraction_data \<noteq> [] then
        (let new_docs = filter (\<lambda>doc. \<not> is_duplicate md5 vm (doc_content doc))
                          (er_documents extraction_data);
             duplicates = length (filter (\<lambda>doc. is_duplicate md5 vm (doc_content doc))
                                    (er_documents extraction_data))
         in if duplicates > 0 then extraction_data\<lparr>er_documents := new_docs\<rparr>
            else extraction_data)
      else extraction_data)"

datatype max_results_arg = IntArg int | StrArg pystr

definition convert_max_results :: "'e collaborators \<Rightarrow> max_results_arg \<Rightarrow> int" where
  "convert_max_results cs arg =
     (let n = (case arg of
                 IntArg i \<Rightarrow> i
               | StrArg s \<Rightarrow> (case int_of_str cs s of None \<Rightarrow> 3 | Some i \<Rightarrow> i))
      in max 2 (min n 10))"

definition pipeline_query :: "'e collaborators \<Rightarrow> pystr \<Rightarrow> max_results_arg \<Rightarrow> research_query" where
  "pipeline_query cs tpc max_results_arg =
     \<lparr> rq_topic = tpc, rq_keywords = extract_keywords_with_llm cs tpc,
       rq_max_results = convert_max_results cs max_results_arg,
       rq_search_depth = str ''basic'', rq_date_range = None \<rparr>"

text \<open>
  The tool \<open>research_complete_pipeline_with_memory\<close>: the memory it leaves, and the
  string it returns (\<open>Inr\<close>) or the exception that leaves it (\<open>Inl\<close>). The clock reads
  \<open>now\<close> when the context is retrieved and \<open>later\<close> while the results are stored.
\<close>

definition research_complete_pipeline_with_memory ::
  "'e collaborators \<Rightarrow> (pystr \<Rightarrow> pystr) \<Rightarrow>
   (stored_item list \<Rightarrow> stored_item list \<Rightarrow> 'e error + stored_item list) \<Rightarrow>
   (datetime \<Rightarrow> pystr) \<Rightarrow> datetime \<Rightarrow> datetime \<Rightarrow>
   pystr \<Rightarrow> max_results_arg \<Rightarrow> bool \<Rightarrow> global_synthesis_output memory_system \<Rightarrow>
   global_synthesis_output memory_system \<times> ('e error + pystr)" where
  "research_complete_pipeline_with_memory cs md5 coll_add isoformat now later tpc max_results_arg
       use_cache ms =
     (let max_results = convert_max_results cs max_results_arg in
      case retrieve_context_for_query cs now tpc use_cache ms of
        Inl e \<Rightarrow> (ms, Inl e)
      | Inr context \<Rightarrow>
     (case (if use_cache then ctx_cached_result context else None) of
        Some cached_report \<Rightarrow>
          (case final_report_formatted_outputs (gs_final_report cached_report) of
             Inl e \<Rightarrow> (ms, Inl e)
           | Inr formatted_outputs \<Rightarrow>
               (ms, Inr (dict_get formatted_outputs (str ''markdown'')
                           (str_of_synthesis cs cached_report))))
      | None \<Rightarrow>
     (let query = pipeline_query cs tpc max_results_arg
      in case researcher cs query of
           Inl e \<Rightarrow> (ms, Inl e)
         | Inr research_data \<Rightarrow>
     (case content_extractor cs research_data of
        Inl e \<Rightarrow> (ms, Inl e)
      | Inr extraction_data0 \<Rightarrow>
     (let extraction_data = check_duplicates_step md5 (vector_memory ms) extraction_data0
      in case summarizer cs extraction_data of
           Inl e \<Rightarrow> (ms, Inl e)
         | Inr summarization_data \<Rightarrow>
     (case global_synthesizer cs summarization_data of
        Inl e \<Rightarrow> (ms, Inl e)
      | Inr global_synthesis \<Rightarrow>
     (case process_research_result md5 coll_add later tpc extraction_data summarization_data
             global_synthesis ms of
        (ms1, Inl e) \<Rightarrow> (ms1, Inl e)
      | (ms1, Inr u) \<Rightarrow>
     (case final_report_formatted_outputs (gs_final_report global_synthesis) of
        Inl e \<Rightarrow> (ms1, Inl e)
      | Inr formatted_outputs \<Rightarrow>
     (let final_report_text = slice_to (dict_get formatted_outputs (str ''text'') []) 200;
          ms2 = ms1\<lparr>agent_memory :=
                      add_conversation isoformat later (str ''Recherche sur: '' @ tpc)
                        final_report_text
                        [(str ''max_results'', max_results),
                         (str ''sources'', int (ro_total_found research_data))]
                        (agent_memory ms1)\<rparr>
      in (ms2, Inr (dict_get formatted_outputs (str ''markdown'')
                      (dict_get formatted_outputs (str ''text'')
                         (str_of_synthesis cs global_synthesis)))))))))))))"

text \<open>
  One of the four stages raises \<open>e\<close> in a run of the pipeline that reaches the stages:
  the stages before it have returned, the stage itself raises.
\<close>

definition stage_raises ::
  "'e collaborators \<Rightarrow> (pystr \<Rightarrow> pystr) \<Rightarrow> global_synthesis_output memory_system \<Rightarrow>
   pystr \<Rightarrow> max_results_arg \<Rightarrow> 'e error \<Rightarrow> bool" where
  "stage_raises cs md5 ms tpc max_results_arg e =
     (case researcher cs (pipeline_query cs tpc max_results_arg) of
        Inl e1 \<Rightarrow> e1 = e
      | Inr research_data \<Rightarrow>
          (case content_extractor cs research_data of
             Inl e2 \<Rightarrow> e2 = e
           | Inr extraction_data \<Rightarrow>
               (case summarizer cs (check_duplicates_step md5 (vector_memory ms) extraction_data) of
                  Inl e3 \<Rightarrow> e3 = e
                | Inr summarization_data \<Rightarrow>
                    (case global_synthesizer cs summarization_data of
                       Inl e4 \<Rightarrow> e4 = e
                     | Inr global_synthesis \<Rightarrow> False))))"

section \<open>The Content Extractor (content\_extraction.py, content\_extractor\_agent.py)\<close>

text \<open>The marker \<open>"... [Contenu tronqu\'e]"\<close>, 21 code points.\<close>

definition truncation_marker :: pystr where
  "truncation_marker = str ''... [Contenu tronqu'' @ [233] @ str '']''"

text \<open>\<open>WebContentExtractor._clean_text\<close>.\<close>

definition web_clean_text :: "pystr \<Rightarrow> pystr" where
  "web_clean_text text =
     (if text = [] then []
      else
        let text1 = sub_whitespace text;
            text2 = sub_blank_line text1;
            text3 = strip text2
        in if length text3 > 50000 then slice_to text3 50000 @ truncation_marker else text3)"

text \<open>
  The dictionary \<open>content_filters\<close>: each key may be absent. The dictionary with no
  key is empty, and an empty dictionary switches the filters off.
\<close>

record content_filters =
  cf_min_content_length :: "int option"
  cf_max_content_length :: "int option"
  cf_language :: "pystr option"
  cf_required_keywords :: "pystr list option"

definition filters_given :: "content_filters \<Rightarrow> bool" where
  "filters_given filters \<longleftrightarrow>
     cf_min_content_length filters \<noteq> None \<or> cf_max_content_length filters \<noteq> None
     \<or> cf_language filters \<noteq> None \<or> cf_required_keywords filters \<noteq> None"

text \<open>\<open>_apply_content_filters\<close>; \<open>lower\<close> is \<open>str.lower\<close>.\<close>

fun apply_content_filters ::
  "(pystr \<Rightarrow> pystr) \<Rightarrow> content_filters \<Rightarrow> document list \<Rightarrow> document list" where
  "apply_content_filters lower filters [] = []"
| "apply_content_filters lower filters (doc # docs) =
     (let min_length = (case cf_min_content_length filters of None \<Rightarrow> 100 | Some n \<Rightarrow> n)
      in if int (length (doc_content doc)) < min_length
         then apply_content_filters lower filters docs
         else
           let max_length = (case cf_max_content_length filters of None \<Rightarrow> 100000 | Some n \<Rightarrow> n);
               doc1 = (if int (length (doc_content doc)) > max_length
                       then doc\<lparr>doc_content :=
                                  slice_to (doc_content doc) max_length @ truncation_marker\<rparr>
                       else doc)
           in if (case cf_language filters of
                    None \<Rightarrow> False
                  | Some required_language \<Rightarrow>
                      required_language \<noteq> [] \<and> doc_language doc1 \<noteq> required_language)
              then apply_content_filters lower filters docs
              else if (case cf_required_keywords filters of
                         None \<Rightarrow> False
                       | Some required_keywords \<Rightarrow>
                           required_keywords \<noteq> []
                           \<and> \<not> list_ex (\<lambda>keyword. py_in (lower keyword) (lower (doc_content doc1)))
                                 required_keywords)
              then apply_content_filters lower filters docs
              else doc1 # apply_content_filters lower filters docs)"

text \<open>\<open>_extract_all_content\<close>, for the documents that \<open>extract_multiple\<close> fetched.\<close>

definition extract_all_content ::
  "(pystr \<Rightarrow> pystr) \<Rightarrow> content_filters \<Rightarrow> document list \<Rightarrow> document list" where
  "extract_all_content lower filters fetched =
     (if filters_given filters then apply_content_filters lower filters fetched else fetched)"

text \<open>The class \<open>[\x00-\x08\x0B\x0C\x0E-\x1F\x7F]\<close> and \<open>_clean_content\<close>.\<close>

definition is_control :: "nat \<Rightarrow> bool" where
  "is_control c \<longleftrightarrow> c \<le> 8 \<or> c = 11 \<or> c = 12 \<or> (14 \<le> c \<and> c \<le> 31) \<or> c = 127"

definition clean_content :: "pystr \<Rightarrow> pystr" where
  "clean_content content =
     (if content = [] then []
      else
        let content1 = filter (\<lambda>c. \<not> is_control c) content;
            content2 = sub_spaces_tabs content1;
            content3 = sub_blank_lines content2;
            lines = map strip (split_on 10 content3);
            content4 = join [10] lines;
            content5 = sub_newlines content4
        in strip content5)"

text \<open>
  \<open>_is_valid_document\<close>. \<open>ExtractionInput\<close> has no attribute \<open>min_quality_score\<close>, so the
  quality score is not looked at.
\<close>

definition is_valid_document :: "document \<Rightarrow> bool" where
  "is_valid_document doc \<longleftrightarrow>
     \<not> (doc_content doc = [] \<or> strip (doc_content doc) = [])
     \<and> \<not> length (doc_content doc) < 50
     \<and> \<not> doc_word_count doc < 20"

definition post_process_documents :: "document list \<Rightarrow> document list" where
  "post_process_documents documents =
     filter is_valid_document
       (map (\<lambda>doc. let content = clean_content (doc_content doc)
                    in doc\<lparr>doc_content := content, doc_word_count := length (split_ws content)\<rparr>)
          documents)"

text \<open>
  The documents of the \<open>ExtractionResult\<close> that \<open>ContentExtractorAgent.process\<close> returns,
  for the documents fetched from the valid URLs.
\<close>

definition extracted_documents ::
  "(pystr \<Rightarrow> pystr) \<Rightarrow> content_filters \<Rightarrow> document list \<Rightarrow> document list" where
  "extracted_documents lower filters fetched =
     post_process_documents (extract_all_content lower filters fetched)"

text \<open>The filters \<open>process_from_research_output\<close> sets for the pipeline.\<close>

definition research_filters :: "research_output \<Rightarrow> content_filters" where
  "research_filters research_output =
     \<lparr> cf_min_content_length = Some 200, cf_max_content_length = Some 50000,
       cf_language = None,
       cf_required_keywords = Some (rq_keywords (ro_query research_output)) \<rparr>"

section \<open>The Chunker (text\_chunking.py)\<close>

record text_chunk =
  content :: pystr
  start_index :: int
  end_index :: int
  chunk_id :: nat
  total_chunks :: nat
  word_count :: nat
  has_heading :: bool
  heading_text :: "pystr option"

text \<open>The three sizes of a \<open>TextChunker\<close>, in characters.\<close>

record chunker =
  max_chunk_size :: nat
  overlap_size :: nat
  min_chunk_size :: nat

text \<open>
  \<open>_detect_heading\<close> reads Unicode classes (\<open>\d\<close>, \<open>\w\<close>, \<open>isupper\<close>) and decides only
  the two heading fields of a chunk; it is the parameter \<open>detect_heading\<close> of what
  follows.
\<close>

type_synonym heading_detector = "pystr \<Rightarrow> bool \<times> pystr option"

text \<open>\<open>TextChunker._clean_text\<close>.\<close>

definition clean_text :: "pystr \<Rightarrow> pystr" where
  "clean_text text =
     (let text1 = sub_whitespace text;
          text2 = sub_blank_lines text1
      in strip text2)"

definition create_chunk :: "heading_detector \<Rightarrow> pystr \<Rightarrow> int \<Rightarrow> int \<Rightarrow> nat \<Rightarrow> text_chunk" where
  "create_chunk detect_heading c start stop cid =
     (case detect_heading c of
        (is_heading, heading) \<Rightarrow>
          \<lparr> content = c, start_index = start, end_index = stop, chunk_id = cid,
            total_chunks = 0, word_count = length (split_ws c),
            has_heading = is_heading, heading_text = heading \<rparr>)"

text \<open>
  \<open>_get_overlap_text\<close>. The fallback walks the words of the chunk from the last one
  back and stops at the first word that does not fit.
\<close>

fun overlap_words_loop :: "nat \<Rightarrow> nat \<Rightarrow> pystr list \<Rightarrow> pystr list \<Rightarrow> pystr list" where
  "overlap_words_loop limit char_count overlap_words [] = overlap_words"
| "overlap_words_loop limit char_count overlap_words (word # reversed_words) =
     (if char_count + length word > limit then overlap_words
      else overlap_words_loop limit (char_count + length word + 1) (word # overlap_words)
             reversed_words)"

definition get_overlap_text :: "chunker \<Rightarrow> pystr \<Rightarrow> pystr" where
  "get_overlap_text cfg chunk =
     (if length chunk \<le> overlap_size cfg then []
      else
        let sentences = split_sentences (slice_from chunk (- int (overlap_size cfg)))
        in if length sentences > 1 then join (str ''. '') (tl sentences) @ str ''. ''
           else
             let overlap_words = overlap_words_loop (overlap_size cfg) 0 [] (rev (split_ws chunk))
             in if overlap_words \<noteq> [] then join (str '' '') overlap_words @ str '' '' else [])"

text \<open>
  The loop of \<open>_chunk_with_structure\<close> over the paragraphs; the state is the list of
  chunks, the current chunk, its start and the position in the text.
\<close>

fun chunk_with_structure_loop ::
  "chunker \<Rightarrow> heading_detector \<Rightarrow> pystr list \<Rightarrow> text_chunk list \<times> pystr \<times> int \<times> int \<Rightarrow>
   text_chunk list \<times> pystr \<times> int \<times> int" where
  "chunk_with_structure_loop cfg detect_heading [] st = st"
| "chunk_with_structure_loop cfg detect_heading (paragraph # paragraphs)
       (chunks, current_chunk, current_start, text_position) =
     (if strip paragraph = []
      then chunk_with_structure_loop cfg detect_heading paragraphs
             (chunks, current_chunk, current_start, text_position)
      else if length current_chunk + length paragraph > max_chunk_size cfg \<and> current_chunk \<noteq> []
      then
        let chunk = create_chunk detect_heading (strip current_chunk) current_start text_position
                      (length chunks + 1);
            overlap_text = get_overlap_text cfg current_chunk
        in chunk_with_structure_loop cfg detect_heading paragraphs
             (chunks @ [chunk], overlap_text @ paragraph,
              text_position - int (length overlap_text),
              text_position + int (length paragraph) + 2)
      else
        chunk_with_structure_loop cfg detect_heading paragraphs
          (chunks,
           (if current_chunk \<noteq> [] then current_chunk @ [10, 10] @ paragraph else paragraph),
           (if current_chunk \<noteq> [] then current_start else text_position),
           text_position + int (length paragraph) + 2))"

definition chunk_with_structure :: "chunker \<Rightarrow> heading_detector \<Rightarrow> pystr \<Rightarrow> text_chunk list" where
  "chunk_with_structure cfg detect_heading text =
     (case chunk_with_structure_loop cfg detect_heading (split_paragraphs text) ([], [], 0, 0) of
        (chunks, current_chunk, current_start, text_position) \<Rightarrow>
          if strip current_chunk \<noteq> []
          then chunks @ [create_chunk detect_heading (strip current_chunk) current_start
                           (int (length text)) (length chunks + 1)]
          else chunks)"

text \<open>\<open>_chunk_simple\<close>: the same loop over the sentences, each closed by a full stop.\<close>

fun chunk_simple_loop ::
  "chunker \<Rightarrow> heading_detector \<Rightarrow> pystr list \<Rightarrow> text_chunk list \<times> pystr \<times> int \<times> int \<Rightarrow>
   text_chunk list \<times> pystr \<times> int \<times> int" where
  "chunk_simple_loop cfg detect_heading [] st = st"
| "chunk_simple_loop cfg detect_heading (sentence0 # sentences)
       (chunks, current_chunk, current_start, text_position) =
     (let sentence = strip sentence0 in
      if sentence = []
      then chunk_simple_loop cfg detect_heading sentences
             (chunks, current_chunk, current_start, text_position)
      else
        let sentence_in_text = sentence @ str ''.'' in
        if length current_chunk + length sentence_in_text > max_chunk_size cfg \<and> current_chunk \<noteq> []
        then
          let chunk = create_chunk detect_heading (strip current_chunk) current_start text_position
                        (length chunks + 1);
              overlap_text = get_overlap_text cfg current_chunk
          in chunk_simple_loop cfg detect_heading sentences
               (chunks @ [chunk], overlap_text @ sentence_in_text,
                text_position - int (length overlap_text),
                text_position + int (length sentence_in_text))
        else
          chunk_simple_loop cfg detect_heading sentences
            (chunks,
             (if current_chunk \<noteq> [] then current_chunk @ str '' '' @ sentence_in_text
              else sentence_in_text),
             (if current_chunk \<noteq> [] then current_start else text_position),
             text_position + int (length sentence_in_text)))"

definition chunk_simple :: "chunker \<Rightarrow> heading_detector \<Rightarrow> pystr \<Rightarrow> text_chunk list" where
  "chunk_simple cfg detect_heading text =
     (case chunk_simple_loop cfg detect_heading (split_sentences text) ([], [], 0, 0) of
        (chunks, current_chunk, current_start, text_position) \<Rightarrow>
          if strip current_chunk \<noteq> []
          then chunks @ [create_chunk detect_heading (strip current_chunk) current_start
                           (int (length text)) (length chunks + 1)]
          else chunks)"

text \<open>
  \<open>_post_process_chunks\<close>: a chunk shorter than \<open>min_chunk_size\<close> is merged with the next
  one when the two contents together do not pass \<open>max_chunk_size\<close>; the chunks are
  numbered again and \<open>total_chunks\<close> is set at the end.
\<close>

fun merge_loop :: "chunker \<Rightarrow> text_chunk list \<Rightarrow> text_chunk list \<Rightarrow> text_chunk list" where
  "merge_loop cfg merged_chunks [] = merged_chunks"
| "merge_loop cfg merged_chunks [current_chunk] =
     merged_chunks @ [current_chunk\<lparr>chunk_id := length merged_chunks + 1\<rparr>]"
| "merge_loop cfg merged_chunks (current_chunk # next_chunk # chunks) =
     (if length (content current_chunk) < min_chunk_size cfg
         \<and> length (content current_chunk) + length (content next_chunk) \<le> max_chunk_size cfg
      then
        let merged_content = content current_chunk @ [10, 10] @ content next_chunk;
            merged_chunk =
              \<lparr> content = merged_content,
                start_index = start_index current_chunk,
                end_index = end_index next_chunk,
                chunk_id = length merged_chunks + 1,
                total_chunks = 0,
                word_count = length (split_ws merged_content),
                has_heading = (has_heading current_chunk \<or> has_heading next_chunk),
                heading_text = (case heading_text current_chunk of
                                  Some h \<Rightarrow> if h \<noteq> [] then Some h else heading_text next_chunk
                                | None \<Rightarrow> heading_text next_chunk) \<rparr>
        in merge_loop cfg (merged_chunks @ [merged_chunk]) chunks
      else
        merge_loop cfg (merged_chunks @ [current_chunk\<lparr>chunk_id := length merged_chunks + 1\<rparr>])
          (next_chunk # chunks))"

definition post_process_chunks :: "chunker \<Rightarrow> text_chunk list \<Rightarrow> text_chunk list" where
  "post_process_chunks cfg chunks =
     (let merged_chunks = merge_loop cfg [] chunks
      in map (\<lambda>chunk. chunk\<lparr>total_chunks := length merged_chunks\<rparr>) merged_chunks)"

definition chunk_text :: "chunker \<Rightarrow> heading_detector \<Rightarrow> pystr \<Rightarrow> bool \<Rightarrow> text_chunk list" where
  "chunk_text cfg detect_heading text0 preserve_structure =
     (if text0 = [] \<or> length (strip text0) = 0 then []
      else
        let text = clean_text text0 in
        if length text \<le> max_chunk_size cfg
        then [\<lparr> content = text, start_index = 0, end_index = int (length text), chunk_id = 1,
                total_chunks = 1, word_count = length (split_ws text),
                has_heading = False, heading_text = None \<rparr>]
        else
          post_process_chunks cfg
            (if preserve_structure then chunk_with_structure cfg detect_heading text
             else chunk_simple cfg detect_heading text))"

text \<open>The chunker of the strategy \<open>default\<close> of \<open>ChunkingManager\<close>.\<close>

definition default_chunker :: chunker where
  "default_chunker = \<lparr> max_chunk_size = 4000, overlap_size = 200, min_chunk_size = 500 \<rparr>"

section \<open>Sample inputs\<close>

subsection \<open>Sample memories\<close>

text \<open>
  Concrete inputs on which the theorems below are run. Where a theorem holds for every
  hash function, the sample runs take the identity for \<open>md5\<close>; \<open>coll_append\<close> is a
  database that stores every batch.
\<close>

definition empty_vm :: vector_memory where
  "empty_vm = \<lparr> content_hashes = {}, collection = [] \<rparr>"

definition empty_am :: "'r agent_memory" where
  "empty_am = \<lparr> max_history = 100, compression_threshold = 50, conversation_history = [],
       research_cache = Map.empty, summary_cache = Map.empty, topic_keywords = Map.empty \<rparr>"

definition coll_append :: "stored_item list \<Rightarrow> stored_item list \<Rightarrow> unit error + stored_item list" where
  "coll_append coll batch = Inr (coll @ batch)"

definition demo_doc :: pydict where
  "demo_doc = [str ''content'' \<mapsto> str ''abc'', str ''title'' \<mapsto> str ''T'']"

definition demo_stored_vm :: vector_memory where
  "demo_stored_vm =
     \<lparr> content_hashes = {str ''abc''},
       collection =
         [\<lparr> item_id = (str ''research'', str ''abc'', 5), item_document = str ''abc'',
            item_metadata = \<lparr> md_title = str ''T'', md_url = [], md_source = str ''research'',
              md_timestamp = 5, md_content_hash = str ''abc'', md_word_count = 1 \<rparr> \<rparr>] \<rparr>"

definition demo_history :: "conversation list" where
  "demo_history =
     [\<lparr> conv_timestamp = str ''2025-01-01T10:00:00'', conv_user = str ''Recherche sur: ia'',
         conv_assistant = str ''r1'', conv_metadata = [(str ''sources'', 3)] \<rparr>,
      \<lparr> conv_timestamp = str ''2025-01-02T11:00:00'', conv_user = str ''Recherche sur: climat'',
         conv_assistant = str ''r2'', conv_metadata = [] \<rparr>]"

definition demo_repr :: "(pystr \<times> int) list \<Rightarrow> pystr" where
  "demo_repr d = str ''{..}''"

subsection \<open>Sample searches\<close>

text \<open>\<open>ascii_lower\<close> lowers the ASCII letters; it stands for \<open>str.lower\<close> in the sample runs.\<close>

definition ascii_lower :: "pystr \<Rightarrow> pystr" where
  "ascii_lower s = map (\<lambda>c. if 65 \<le> c \<and> c \<le> 90 then c + 32 else c) s"

definition demo_query :: research_query where
  "demo_query = \<lparr> rq_topic = str ''solar power'', rq_keywords = [str ''energy''], rq_max_results = 3,
                  rq_search_depth = str ''basic'', rq_date_range = None \<rparr>"

definition demo_result :: "pystr \<Rightarrow> pystr \<Rightarrow> search_result" where
  "demo_result t u = \<lparr> sr_title = t, sr_url = u, sr_snippet = str ''Solar power and energy'',
      sr_published_date = None, sr_author = None, sr_source = None, sr_score = None, sr_tags = [] \<rparr>"

definition failing_api :: "unit search_api" where
  "failing_api query n depth = Inl (External ())"

definition serper_api :: "unit search_api" where
  "serper_api query n depth =
     Inr [demo_result (str ''Solar power'') (str ''https://a.example/1''),
          demo_result (str ''Energy'') (str ''https://b.example/2''),
          demo_result (str ''News'') (str ''https://c.example/3'')]"

definition demo_apis :: "(pystr \<times> unit search_api) list" where
  "demo_apis = [(str ''tavily'', failing_api), (str ''serper'', serper_api)]"

definition demo_research_output :: research_output where
  "demo_research_output =
     \<lparr> ro_query = demo_query,
       ro_results =
         [(demo_result (str ''Solar power'') (str ''https://a.example/1''))\<lparr>sr_score := Some (3/4)\<rparr>,
          (demo_result (str ''Energy'') (str ''https://b.example/2''))\<lparr>sr_score := Some (3/4)\<rparr>,
          (demo_result (str ''News'') (str ''https://c.example/3''))\<lparr>sr_score := Some (3/5)\<rparr>],
       ro_total_found = 3, ro_search_engine = str ''tavily'' \<rparr>"

subsection \<open>Sample documents and pipeline runs\<close>

definition demo_summaries :: "document_summary list" where
  "demo_summaries =
     [\<lparr> ds_document_id = str ''d1'', ds_title = str ''A'', ds_url = str ''https://a.example/1'',
         ds_executive_summary = str ''short'', ds_detailed_summary = str ''long'',
         ds_sentiment = None, ds_credibility_score = Some (4/5) \<rparr>,
      \<lparr> ds_document_id = str ''d2'', ds_title = str ''B'', ds_url = str ''https://b.example/2'',
         ds_executive_summary = str ''short'', ds_detailed_summary = str ''long'',
         ds_sentiment = None, ds_credibility_score = None \<rparr>]"

definition demo_summarization :: summarization_output where
  "demo_summarization =
     \<lparr> so_summaries = demo_summaries, so_total_documents = 2, so_average_credibility = Some (4/5),
       so_common_themes = [], so_consensus_points = [], so_conflicting_views = [] \<rparr>"

definition demo_sections :: "report_section list" where
  "demo_sections =
     [\<lparr> rs_title = str ''One'', rs_content = str ''text'', rs_order = 1 \<rparr>,
      \<lparr> rs_title = str ''Two'', rs_content = str ''text'', rs_order = 2 \<rparr>]"

text \<open>Two documents of the same content, fetched from two hosts.\<close>

definition demo_document :: "pystr \<Rightarrow> document" where
  "demo_document url =
     \<lparr> doc_title = str ''Solar'', doc_url = url, doc_content = str ''the same text'',
       doc_type = ARTICLE, doc_author = None, doc_published_date = None, doc_source = None,
       doc_word_count = 3, doc_language = str ''fr'' \<rparr>"

definition demo_extraction :: extraction_result where
  "demo_extraction =
     \<lparr> er_documents = [demo_document (str ''https://a.example/1''),
                       demo_document (str ''https://b.example/2'')],
       er_total_urls = 2, er_successful_extractions = 2, er_failed_extractions = 0,
       er_failed_urls = [] \<rparr>"

definition empty_ms :: "global_synthesis_output memory_system" where
  "empty_ms = \<lparr> vector_memory = empty_vm, agent_memory = empty_am \<rparr>"

text \<open>
  Collaborators that show what reaches the Summarizer: search and extraction return the
  samples, and the Summarizer raises, with the number of documents it was given.
\<close>

definition probe_collaborators :: "nat collaborators" where
  "probe_collaborators =
     \<lparr> int_of_str = (\<lambda>s. None),
       str_of_synthesis = (\<lambda>x. []),
       get_relevant_context = (\<lambda>vm query. Inr []),
       extract_keywords_with_llm = (\<lambda>t. []),
       researcher = (\<lambda>query. Inr demo_research_output),
       content_extractor = (\<lambda>research_data. Inr demo_extraction),
       summarizer = (\<lambda>extraction_data. Inl (External (length (er_documents extraction_data)))),
       global_synthesizer = (\<lambda>summarization_data. Inl (External 0)) \<rparr>"

text \<open>Collaborators whose search raises.\<close>

definition failing_collaborators :: "unit collaborators" where
  "failing_collaborators =
     \<lparr> int_of_str = (\<lambda>s. None),
       str_of_synthesis = (\<lambda>x. []),
       get_relevant_context = (\<lambda>vm query. Inr []),
       extract_keywords_with_llm = (\<lambda>t. []),
       researcher = (\<lambda>query. Inl (External ())),
       content_extractor = (\<lambda>research_data. Inr demo_extraction),
       summarizer = (\<lambda>extraction_data. Inr demo_summarization),
       global_synthesizer = (\<lambda>summarization_data. Inl (External ())) \<rparr>"

subsection \<open>Sample documents for the Content Extractor and the Chunker\<close>

text \<open>
  The text of a page, 50030 characters: a word of 49940 letters \<open>a\<close>, then thirty
  times the word \<open>ab\<close>; and the document the fetcher makes of it.
\<close>

definition thirty_words :: pystr where
  "thirty_words =
     str '' ab ab ab ab ab ab ab ab ab ab ab ab ab ab ab ab ab ab ab ab ab ab ab ab ab ab ab ab ab ab''"

definition page_text :: pystr where
  "page_text = replicate 49940 97 @ thirty_words"

definition long_document :: document where
  "long_document =
     \<lparr> doc_title = str ''Document depuis a.example'', doc_url = str ''https://a.example/long'',
       doc_content = web_clean_text page_text,
       doc_type = OTHER, doc_author = None, doc_published_date = None, doc_source = None,
       doc_word_count = length (split_ws (web_clean_text page_text)),
       doc_language = str ''fr'' \<rparr>"

text \<open>What is left of the thirty words: the first twenty and the marker.\<close>

definition truncated_tail :: pystr where
  "truncated_tail =
     str '' ab ab ab ab ab ab ab ab ab ab ab ab ab ab ab ab ab ab ab ab'' @ truncation_marker"

text \<open>The filters of the pipeline for a query without keywords.\<close>

definition demo_filters :: content_filters where
  "demo_filters =
     research_filters (demo_research_output\<lparr>ro_query := demo_query\<lparr>rq_keywords := []\<rparr>\<rparr>)"

definition small_chunker :: chunker where
  "small_chunker = \<lparr> max_chunk_size = 10, overlap_size = 3, min_chunk_size = 2 \<rparr>"

definition no_heading :: heading_detector where
  "no_heading paragraph = (False, None)"

section \<open>Properties of the text functions\<close>

lemma sub_runs_acc_set:
  "x \<in> set (sub_runs_acc P b s) \<Longrightarrow> x = 32 \<or> \<not> P x"
  by (induction s arbitrary: b) (auto split: if_splits)

lemma isspace_newline: "isspace 10"
  by (simp add: isspace_def)

lemma isspace_space: "isspace 32"
  by (simp add: isspace_def)

lemma sub_runs_acc_prefix:
  "\<forall>c \<in> set xs. \<not> P c \<Longrightarrow> xs \<noteq> [] \<Longrightarrow>
   sub_runs_acc P b (xs @ ys) = xs @ sub_runs_acc P False ys"
proof (induction xs arbitrary: b)
  case Nil
  then show ?case by simp
next
  case (Cons x xs)
  then show ?case by (cases "xs = []") auto
qed

lemma sub_runs_acc_plain:
  "\<forall>c \<in> set xs. \<not> P c \<Longrightarrow> sub_runs_acc P b xs = xs"
  by (induction xs arbitrary: b) auto

lemma sub_runs_acc_keeps:
  "\<exists>c \<in> set s. \<not> P c \<Longrightarrow> \<exists>c \<in> set (sub_runs_acc P b s). \<not> P c"
  by (induction s arbitrary: b) (auto split: if_splits)

lemma count_newlines_none: "10 \<notin> set run \<Longrightarrow> count_newlines run = 0"
  by (auto simp add: count_newlines_def filter_empty_conv)

lemma sub_blank_acc_no_newline:
  "10 \<notin> set run \<Longrightarrow> 10 \<notin> set s \<Longrightarrow> 0 < k \<Longrightarrow> sub_blank_acc k run s = run @ s"
  by (induction s arbitrary: run) (auto simp add: sub_in_run_def count_newlines_none)

lemma split_blank_acc_no_newline:
  "10 \<notin> set run \<Longrightarrow> 10 \<notin> set s \<Longrightarrow> split_blank_acc cur run s = [cur @ run @ s]"
  by (induction s arbitrary: cur run) (auto simp add: count_newlines_none)

lemma set_strip: "set (strip s) \<subseteq> set s"
proof -
  have "set (strip s) = set (dropWhile isspace (rev (dropWhile isspace s)))"
    by (simp add: strip_def)
  also have "\<dots> \<subseteq> set (rev (dropWhile isspace s))"
    by (rule set_dropWhileD [THEN subsetI])
  also have "\<dots> \<subseteq> set s"
    using set_dropWhileD by fastforce
  finally show ?thesis .
qed

lemma dropWhile_all_iff:
  "(\<forall>x \<in> set (dropWhile P s). P x) \<longleftrightarrow> (\<forall>x \<in> set s. P x)"
proof
  assume a: "\<forall>x \<in> set (dropWhile P s). P x"
  have "dropWhile P s = []"
  proof (rule ccontr)
    assume "dropWhile P s \<noteq> []"
    then have "\<not> P (hd (dropWhile P s))" "hd (dropWhile P s) \<in> set (dropWhile P s)"
      by (simp_all add: hd_dropWhile)
    with a show False by blast
  qed
  then show "\<forall>x \<in> set s. P x"
    by (simp add: dropWhile_eq_Nil_conv)
next
  assume "\<forall>x \<in> set s. P x"
  then show "\<forall>x \<in> set (dropWhile P s). P x"
    by (auto dest: set_dropWhileD)
qed

lemma strip_empty_iff: "strip s = [] \<longleftrightarrow> (\<forall>c \<in> set s. isspace c)"
  by (simp add: strip_def dropWhile_eq_Nil_conv dropWhile_all_iff)

lemma dropWhile_rev_dropWhile:
  "dropWhile P (rev (dropWhile P (rev (dropWhile P s)))) = rev (dropWhile P (rev (dropWhile P s)))"
proof (cases "dropWhile P (rev (dropWhile P s)) = []")
  case True
  show ?thesis unfolding True by simp
next
  case False
  let ?t = "dropWhile P s"
  let ?u = "dropWhile P (rev ?t)"
  from False have t: "?t \<noteq> []" by (cases "?t = []") simp_all
  then have h: "\<not> P (hd ?t)" by (rule hd_dropWhile)
  have "rev ?t = takeWhile P (rev ?t) @ ?u" by simp
  then have "?t = rev ?u @ rev (takeWhile P (rev ?t))"
    by (metis rev_append rev_rev_ident)
  with False have "hd (rev ?u) = hd ?t"
    by (metis hd_append2 rev_is_Nil_conv)
  with h have "\<not> P (hd (rev ?u))" by simp
  with False show ?thesis by (cases "rev ?u") auto
qed

lemma strip_strip: "strip (strip s) = strip s"
  by (simp add: strip_def dropWhile_rev_dropWhile dropWhile_idem)

lemma strip_plain:
  assumes "s \<noteq> []" and "\<not> isspace (hd s)" and "\<not> isspace (last s)"
  shows "strip s = s"
proof -
  have a: "dropWhile isspace s = s"
    using assms(1,2) by (cases s) auto
  have b: "dropWhile isspace (rev s) = rev s"
    using assms(1,3) by (cases s rule: rev_cases) auto
  show ?thesis
    by (simp add: strip_def a b)
qed

lemma split_on_absent: "d \<notin> set s \<Longrightarrow> split_on d s = [s]"
  by (induction s) auto

lemma sub_newlines_acc_absent: "10 \<notin> set s \<Longrightarrow> sub_newlines_acc 0 s = s"
  by (induction s) auto

lemma split_acc_replicate:
  "\<not> isspace a \<Longrightarrow> split_acc cur (replicate n a @ ys) = split_acc (cur @ replicate n a) ys"
proof (induction n arbitrary: cur)
  case 0
  then show ?case by simp
next
  case (Suc n)
  then show ?case by (simp add: replicate_app_Cons_same)
qed

section \<open>Properties of the memory system\<close>

lemma add_documents_loop_known:
  "md5 (dict_get doc (str ''content'') []) \<in> hashes \<Longrightarrow>
   add_documents_loop md5 now source True [doc] (hashes, batch, a, s)
     = (hashes, batch, a, s + 1)"
  by (simp add: Let_def)

lemma add_documents_loop_hash:
  "add_documents_loop md5 now source chk [doc] (hashes, batch, a, s) = (hashes', batch', a', s')
   \<Longrightarrow> md5 (dict_get doc (str ''content'') []) \<in> hashes'"
  by (auto simp add: Let_def split: if_splits)

lemma demo_add:
  "add_documents id coll_append 5 empty_vm [demo_doc] (str ''research'') True
     = (demo_stored_vm, Inr \<lparr> added = 1, skipped = 0, total_in_db = 1 \<rparr>)"
  by (simp add: add_documents_def demo_doc_def empty_vm_def coll_append_def dict_get_def
        Let_def split_ws_def isspace_def demo_stored_vm_def str_def)

text \<open>
  Claim C8 (dedup law). For any content \<open>c\<close>: once \<open>add_documents\<close> has succeeded on a
  batch holding one document of content \<open>c\<close> (whatever the source and the duplicate
  flag), \<open>is_duplicate c\<close> is true, and a later \<open>add_documents\<close> of a document of the
  same content with \<open>check_duplicates = True\<close> leaves the memory as it is and reports
  \<open>added = 0\<close>, \<open>skipped = 1\<close>.
\<close>

theorem dedup_law:
  assumes ok: "add_documents md5 coll_add t1 vm [doc] source chk = (vm1, Inr st1)"
    and c: "dict_get doc (str ''content'') [] = c"
    and c': "dict_get doc' (str ''content'') [] = c"
  shows "is_duplicate md5 vm1 c \<and>
         add_documents md5 coll_add' t2 vm1 [doc'] source' True
           = (vm1, Inr \<lparr> added = 0, skipped = 1, total_in_db = length (collection vm1) \<rparr>)"
proof -
  obtain hashes batch a s where
    loop: "add_documents_loop md5 t1 source chk [doc] (content_hashes vm, [], 0, 0)
             = (hashes, batch, a, s)"
    by (metis prod_cases4)
  have mem: "md5 c \<in> hashes"
    using add_documents_loop_hash [OF loop] c by simp
  have h1: "content_hashes vm1 = hashes"
    using ok loop by (auto simp add: add_documents_def Let_def split: if_splits sum.splits)
  have dup: "is_duplicate md5 vm1 c"
    using mem h1 by (simp add: is_duplicate_def)
  have "add_documents_loop md5 t2 source' True [doc'] (content_hashes vm1, [], 0, 0)
          = (content_hashes vm1, [], 0, 0 + 1)"
    using c' h1 mem by (intro add_documents_loop_known) simp
  then have "add_documents md5 coll_add' t2 vm1 [doc'] source' True
           = (vm1, Inr \<lparr> added = 0, skipped = 1, total_in_db = length (collection vm1) \<rparr>)"
    by (simp add: add_documents_def)
  with dup show ?thesis by simp
qed

theorem dedup_law_witness:
  "add_documents id coll_append 5 empty_vm [demo_doc] (str ''research'') True
     = (demo_stored_vm, Inr \<lparr> added = 1, skipped = 0, total_in_db = 1 \<rparr>)
   \<and> is_duplicate id demo_stored_vm (str ''abc'')
   \<and> add_documents id coll_append 9 demo_stored_vm [demo_doc] (str ''summary'') True
     = (demo_stored_vm, Inr \<lparr> added = 0, skipped = 1, total_in_db = 1 \<rparr>)"
proof -
  have c: "dict_get demo_doc (str ''content'') [] = str ''abc''"
    by (simp add: dict_get_def demo_doc_def str_def)
  have n: "length (collection demo_stored_vm) = 1"
    by (simp add: demo_stored_vm_def)
  show ?thesis
    using dedup_law [OF demo_add c c, of coll_append 9 "str ''summary''"] demo_add n
    by simp
qed

text \<open>
  Claim C9 (cache law), as the code has it. After \<open>add_research_result t topic r\<close>, a
  \<open>get_research_result\<close> at the instant \<open>t'\<close> returns \<open>r\<close> for every \<open>max_age_hours\<close> that
  \<open>timedelta\<close> accepts and that covers the elapsed time; with \<open>max_age_hours = 0\<close> it
  returns \<open>None\<close> when the clock has advanced since the entry was stored, and \<open>r\<close> when
  the clock still reads the instant of the store.
\<close>

theorem cache_law:
  fixes am :: "'r agent_memory"
  shows "(- 23999999976 \<le> h \<and> h \<le> 23999999999 \<and> t' - t \<le> h * 3600000000 \<longrightarrow>
            get_research_result t' topic h (add_research_result t topic r kw am)
              = (Inr (Some r) :: 'e error + 'r option))
       \<and> (t < t' \<longrightarrow>
            get_research_result t' topic 0 (add_research_result t topic r kw am)
              = (Inr None :: 'e error + 'r option))
       \<and> get_research_result t topic 0 (add_research_result t topic r kw am)
              = (Inr (Some r) :: 'e error + 'r option)"
  by (simp add: get_research_result_def add_research_result_def timedelta_hours_def)

theorem cache_law_witness:
  "get_research_result (1700000000000000 + 3600000000) (str ''ai'') 24
      (add_research_result 1700000000000000 (str ''ai'') (str ''report'') [str ''k''] empty_am)
     = (Inr (Some (str ''report'')) :: unit error + pystr option)
   \<and> get_research_result (1700000000000000 + 1) (str ''ai'') 0
      (add_research_result 1700000000000000 (str ''ai'') (str ''report'') [str ''k''] empty_am)
     = (Inr None :: unit error + pystr option)"
  using cache_law [of 24 "1700000000000000 + 3600000000" 1700000000000000 "str ''ai''"
                      "str ''report''" "[str ''k'']" empty_am, where ?'e = unit]
        cache_law [of 0 "1700000000000000 + 1" 1700000000000000 "str ''ai''"
                      "str ''report''" "[str ''k'']" empty_am, where ?'e = unit]
  by simp

text \<open>
  The claim as the specification states it fails: read at the very instant of the store,
  with \<open>max_age_hours = 0\<close>, the entry is returned.
\<close>

theorem cache_zero_age_counterexample:
  "get_research_result 1700000000000000 (str ''ai'') 0
     (add_research_result 1700000000000000 (str ''ai'') (str ''report'') []
        (empty_am :: pystr agent_memory))
   = (Inr (Some (str ''report'')) :: unit error + pystr option)"
  by (simp add: get_research_result_def add_research_result_def timedelta_hours_def)

lemma slice_from_zero: "slice_from xs 0 = xs"
  by (simp add: slice_from_def)

text \<open>For a positive \<open>n\<close>, \<open>xs[-n:]\<close> is the last \<open>n\<close> elements.\<close>

lemma slice_from_neg:
  "0 < n \<Longrightarrow> slice_from xs (- int n) = drop (length xs - n) xs"
  by (auto simp add: slice_from_def Let_def max_def nat_diff_distrib'
        intro: arg_cong [where f = "\<lambda>k. drop k xs"])

lemma history_header_neq:
  "history_header n @ rest \<noteq> str ''Aucun historique de recherche disponible.''"
  by (simp add: history_header_def str_def)

text \<open>
  Claim C10. With \<open>n_last = 0\<close> and a conversation history that is not empty, the tool
  \<open>get_research_history\<close> lists the whole history (the slice \<open>[-0:]\<close> is \<open>[0:]\<close>); it does
  not answer that there is no history.
\<close>

theorem history_n_last_zero:
  assumes "conversation_history am \<noteq> []"
  shows "get_research_history dict_repr 0 am
           = history_header (length (conversation_history am))
             @ format_history dict_repr 1 (conversation_history am)
       \<and> get_research_history dict_repr 0 am \<noteq> str ''Aucun historique de recherche disponible.''"
proof -
  have eq: "get_research_history dict_repr 0 am
              = history_header (length (conversation_history am))
                @ format_history dict_repr 1 (conversation_history am)"
    using assms by (simp add: get_research_history_def slice_from_zero Let_def)
  show ?thesis
    unfolding eq by (rule conjI [OF refl history_header_neq])
qed

theorem history_n_last_zero_witness:
  "conversation_history ((empty_am :: pystr agent_memory)\<lparr>conversation_history := demo_history\<rparr>) \<noteq> []
   \<and> get_research_history demo_repr 0
        ((empty_am :: pystr agent_memory)\<lparr>conversation_history := demo_history\<rparr>)
     = [128218] @ str '' Historique des 2 derni'' @ [232] @ str ''res recherches:'' @ [10, 10]
       @ str ''[Recherche 1] - 2025-01-01T10:00:00'' @ [10]
       @ str ''Topic: Recherche sur: ia'' @ [10]
       @ str ''D'' @ [233] @ str ''tails: {..}'' @ [10, 10]
       @ str ''[Recherche 2] - 2025-01-02T11:00:00'' @ [10]
       @ str ''Topic: Recherche sur: climat'' @ [10, 10]"
  using history_n_last_zero
          [of "(empty_am :: pystr agent_memory)\<lparr>conversation_history := demo_history\<rparr>" demo_repr]
  by (simp add: demo_history_def demo_repr_def empty_am_def history_header_def show_nat.simps
        slice_to_def str_def)

text \<open>For comparison, \<open>n_last = 1\<close> lists the last entry only.\<close>

lemma history_n_last_one:
  "get_research_history demo_repr 1
        ((empty_am :: pystr agent_memory)\<lparr>conversation_history := demo_history\<rparr>)
     = [128218] @ str '' Historique des 1 derni'' @ [232] @ str ''res recherches:'' @ [10, 10]
       @ str ''[Recherche 1] - 2025-01-02T11:00:00'' @ [10]
       @ str ''Topic: Recherche sur: climat'' @ [10, 10]"
  by (simp add: get_research_history_def slice_from_def demo_history_def demo_repr_def
        empty_am_def history_header_def show_nat.simps slice_to_def str_def)

section \<open>Properties of the Researcher\<close>

lemma demo_prepare: "prepare_search_query ascii_lower demo_query = str ''solar power energy''"
  by (simp add: prepare_search_query_def demo_query_def ascii_lower_def strip_def isspace_def Let_def str_def)

lemma demo_search: "search demo_apis q 3 (str ''tavily'') d = serper_api q 3 d"
  by (simp add: search_def api_order_def demo_apis_def failing_api_def serper_api_def str_def)

lemma demo_lower: "ascii_lower (str ''solar power'') = str ''solar power''" "ascii_lower (str ''energy'') = str ''energy''"
  by (simp_all add: ascii_lower_def str_def)

lemma demo_score_1: "calculate_relevance_score ascii_lower 0 (demo_result (str ''Solar power'') u) [str ''solar power'', str ''energy''] = 3/4"
  by (simp add: calculate_relevance_score_def count_matches_def demo_result_def ascii_lower_def Let_def str_def)

lemma demo_score_2: "calculate_relevance_score ascii_lower 0 (demo_result (str ''Energy'') u) [str ''solar power'', str ''energy''] = 3/4"
  by (simp add: calculate_relevance_score_def count_matches_def demo_result_def ascii_lower_def Let_def str_def)

lemma demo_score_3: "calculate_relevance_score ascii_lower 0 (demo_result (str ''News'') u) [str ''solar power'', str ''energy''] = 3/5"
  by (simp add: calculate_relevance_score_def count_matches_def demo_result_def ascii_lower_def Let_def str_def)

lemma demo_rank:
  "filter_and_rank_results ascii_lower 0
      [demo_result (str ''Solar power'') u1, demo_result (str ''Energy'') u2, demo_result (str ''News'') u3]
      (str ''solar power'') [str ''energy'']
   = [(demo_result (str ''Solar power'') u1)\<lparr>sr_score := Some (3/4)\<rparr>,
          (demo_result (str ''Energy'') u2)\<lparr>sr_score := Some (3/4)\<rparr>,
          (demo_result (str ''News'') u3)\<lparr>sr_score := Some (3/5)\<rparr>]"
  unfolding filter_and_rank_results_def Let_def
  by (simp add: demo_score_1 demo_score_2 demo_score_3 demo_lower score_or_0_def)

lemma demo_run:
  "researcher_process ascii_lower 0 demo_apis demo_query = Inr demo_research_output"
proof -
  have q: "rq_topic demo_query = str ''solar power''" "rq_keywords demo_query = [str ''energy'']"
    "rq_max_results demo_query = 3"
    by (simp_all add: demo_query_def)
  show ?thesis
    unfolding researcher_process_def Let_def demo_prepare q demo_search
    by (simp add: serper_api_def demo_rank slice_to_def demo_research_output_def)
qed

lemma score_nonneg: "0 \<le> calculate_relevance_score lower now r ts"
  unfolding calculate_relevance_score_def Let_def
  by (auto split: option.splits simp add: min_def
      intro!: add_nonneg_nonneg divide_nonneg_nonneg mult_nonneg_nonneg)

lemma score_le_1: "calculate_relevance_score lower now r ts \<le> 1"
  unfolding calculate_relevance_score_def Let_def by simp

lemma filter_and_rank_scores:
  assumes "r \<in> set (filter_and_rank_results lower now results tpc kws)"
  shows "\<exists>s. sr_score r = Some s \<and> 0 \<le> s \<and> s \<le> 1"
proof -
  from assms obtain r0 where
    "r = r0\<lparr>sr_score := Some (calculate_relevance_score lower now r0 ([lower tpc] @ map lower kws))\<rparr>"
    by (auto simp add: filter_and_rank_results_def Let_def split: if_splits)
  then show ?thesis
    using score_nonneg score_le_1 by simp
qed

lemma slice_to_length: "0 \<le> j \<Longrightarrow> int (length (slice_to xs j)) \<le> j"
  by (simp add: slice_to_def Let_def)

lemma set_slice_to: "set (slice_to xs j) \<subseteq> set xs"
  by (simp add: slice_to_def Let_def set_take_subset)

text \<open>
  Claim C6. Every \<open>ResearchOutput\<close> the Researcher returns for a valid query holds at
  most \<open>max_results\<close> results, and each result carries a score between 0 and 1.
\<close>

theorem research_output_bounds:
  assumes valid: "valid_research_query q"
    and run: "researcher_process lower now apis q = Inr out"
  shows "int (length (ro_results out)) \<le> rq_max_results q
       \<and> (\<forall>r \<in> set (ro_results out). \<exists>s. sr_score r = Some s \<and> 0 \<le> s \<and> s \<le> 1)"
proof -
  from run obtain results where
    out: "ro_results out =
            slice_to (filter_and_rank_results lower now results (rq_topic q) (rq_keywords q))
              (rq_max_results q)"
    by (auto simp add: researcher_process_def Let_def split: sum.splits)
  have "0 \<le> rq_max_results q"
    using valid by (simp add: valid_research_query_def)
  then have len: "int (length (ro_results out)) \<le> rq_max_results q"
    unfolding out by (rule slice_to_length)
  have "\<exists>s. sr_score r = Some s \<and> 0 \<le> s \<and> s \<le> 1" if "r \<in> set (ro_results out)" for r
  proof -
    from that have "r \<in> set (filter_and_rank_results lower now results (rq_topic q) (rq_keywords q))"
      unfolding out using set_slice_to by (rule rev_subsetD)
    then show ?thesis by (rule filter_and_rank_scores)
  qed
  with len show ?thesis by blast
qed

theorem research_output_bounds_witness:
  "valid_research_query demo_query
   \<and> researcher_process ascii_lower 0 demo_apis demo_query = Inr demo_research_output
   \<and> int (length (ro_results demo_research_output)) \<le> rq_max_results demo_query
   \<and> (\<exists>s. sr_score (hd (ro_results demo_research_output)) = Some s \<and> 0 \<le> s \<and> s \<le> 1)"
proof -
  have v: "valid_research_query demo_query"
    by (simp add: valid_research_query_def demo_query_def)
  have h: "hd (ro_results demo_research_output) \<in> set (ro_results demo_research_output)"
    by (simp add: demo_research_output_def)
  show ?thesis
    using research_output_bounds [OF v demo_run] v demo_run h by blast
qed

lemma researcher_engine_is_preferred:
  "researcher_process lower now apis q = Inr out \<Longrightarrow> ro_search_engine out = str ''tavily''"
  by (auto simp add: researcher_process_def Let_def split: sum.splits)

text \<open>
  The Researcher raises exactly when no provider of the order answers with results.
\<close>

lemma search_loop_none_iff:
  "search_loop apis names query n depth = None
     \<longleftrightarrow> list_all (provider_fails apis query n depth) names"
  by (induction names) (auto simp add: provider_fails_def split: option.splits sum.splits)

lemma researcher_fails_iff_all_fail:
  "(\<exists>e. researcher_process lower now apis q = Inl e)
     \<longleftrightarrow> list_all (provider_fails apis (prepare_search_query lower q) (rq_max_results q)
                     (rq_search_depth q))
           (api_order apis (str ''tavily''))"
  by (auto simp add: researcher_process_def search_def Let_def search_loop_none_iff [symmetric]
        split: option.splits)

text \<open>
  Claim C2, at the failing input: the preferred provider \<open>tavily\<close> raises, the provider
  \<open>serper\<close>, registered after it, returns three results; the Researcher returns them and
  names \<open>tavily\<close> as the search engine.
\<close>

theorem failover_search_engine:
  "failing_api query n depth = Inl (External ())
   \<and> demo_apis = [(str ''tavily'', failing_api), (str ''serper'', serper_api)]
   \<and> researcher_process ascii_lower 0 demo_apis demo_query = Inr demo_research_output
   \<and> map sr_url (ro_results demo_research_output)
       = [str ''https://a.example/1'', str ''https://b.example/2'', str ''https://c.example/3'']
   \<and> ro_search_engine demo_research_output = str ''tavily''"
  using demo_run
  by (simp add: failing_api_def demo_apis_def demo_research_output_def demo_result_def)

section \<open>Properties of the Global Synthesizer\<close>

lemma credibility_scores_bounds:
  assumes "\<forall>s \<in> set summaries. valid_document_summary s"
  shows "\<forall>c \<in> set (credibility_scores summaries). 0 \<le> c \<and> c \<le> 1"
  using assms
  by (auto simp add: credibility_scores_def valid_document_summary_def split: option.splits if_splits)

lemma sum_list_bounds:
  fixes xs :: "real list"
  assumes "\<forall>x \<in> set xs. 0 \<le> x \<and> x \<le> 1"
  shows "0 \<le> sum_list xs \<and> sum_list xs \<le> real (length xs)"
  using assms by (induction xs) auto

lemma mean_bounds:
  fixes xs :: "real list"
  assumes "xs \<noteq> []" and "\<forall>x \<in> set xs. 0 \<le> x \<and> x \<le> 1"
  shows "0 \<le> sum_list xs / real (length xs) \<and> sum_list xs / real (length xs) \<le> 1"
proof -
  have "0 < real (length xs)" using assms(1) by simp
  then show ?thesis
    using sum_list_bounds [OF assms(2)] by (simp add: divide_le_eq)
qed

lemma reliability_bounds:
  assumes "\<forall>s \<in> set summaries. valid_document_summary s"
  shows "0 \<le> reliability_score (assess_quality summaries sections)
       \<and> reliability_score (assess_quality summaries sections) \<le> 1"
  using mean_bounds [OF _ credibility_scores_bounds [OF assms]]
  by (simp add: assess_quality_def Let_def)

lemma assess_quality_confidence:
  "confidence_score (assess_quality summaries sections)
     = 0.4 * completeness_score (assess_quality summaries sections)
     + 0.4 * reliability_score (assess_quality summaries sections)
     + 0.2 * coherence_score (assess_quality summaries sections)"
  by (simp add: assess_quality_def Let_def)

lemma assess_quality_parts:
  "completeness_score (assess_quality summaries sections) = min (real (length summaries) / 5) 1"
  "coherence_score (assess_quality summaries sections) = min (real (length sections) / 3) 1"
  by (simp_all add: assess_quality_def Let_def)

lemma confidence_bounds:
  assumes "\<forall>s \<in> set summaries. valid_document_summary s"
  shows "0 \<le> confidence_score (assess_quality summaries sections)
       \<and> confidence_score (assess_quality summaries sections) \<le> 1"
proof -
  let ?q = "assess_quality summaries sections"
  have c: "0 \<le> completeness_score ?q \<and> completeness_score ?q \<le> 1"
    by (simp add: assess_quality_parts)
  have h: "0 \<le> coherence_score ?q \<and> coherence_score ?q \<le> 1"
    by (simp add: assess_quality_parts)
  from c h reliability_bounds [OF assms, of sections] show ?thesis
    unfolding assess_quality_confidence by linarith
qed

text \<open>
  Claim C7. For summaries whose credibility scores, where present, lie in \<open>[0, 1]\<close>, the
  Global Synthesizer builds its \<open>FinalReport\<close> (the validation of the two scores
  passes); the report's \<open>confidence_score\<close> lies in \<open>[0, 1]\<close> and is
  \<open>0.4 * completeness + 0.4 * reliability + 0.2 * coherence\<close>, where completeness is
  \<open>min (sources / 5) 1\<close>, also the report's \<open>completeness_score\<close>, and coherence is
  \<open>min (sections / 3) 1\<close>.
\<close>

theorem confidence_score_formula:
  assumes "\<forall>s \<in> set (so_summaries so). valid_document_summary s"
  shows "\<exists>report. process_report tpc so sections = (Inr report :: 'e error + final_report)
       \<and> 0 \<le> fr_confidence_score report \<and> fr_confidence_score report \<le> 1
       \<and> fr_confidence_score report
           = 0.4 * min (real (length (so_summaries so)) / 5) 1
           + 0.4 * reliability_score (assess_quality (so_summaries so) sections)
           + 0.2 * min (real (length sections) / 3) 1
       \<and> fr_completeness_score report = min (real (length (so_summaries so)) / 5) 1"
proof -
  let ?q = "assess_quality (so_summaries so) sections"
  have b: "0 \<le> confidence_score ?q \<and> confidence_score ?q \<le> 1"
    by (rule confidence_bounds [OF assms])
  have c: "0 \<le> completeness_score ?q \<and> completeness_score ?q \<le> 1"
    by (simp add: assess_quality_parts)
  have f: "confidence_score ?q
             = 0.4 * min (real (length (so_summaries so)) / 5) 1
             + 0.4 * reliability_score ?q
             + 0.2 * min (real (length sections) / 3) 1"
    using assess_quality_confidence [of "so_summaries so" sections]
    by (simp only: assess_quality_parts)
  show ?thesis
    using b c f
    by (simp add: process_report_def assemble_final_report_def Let_def assess_quality_parts)
qed

lemma demo_quality:
  "assess_quality demo_summaries demo_sections
     = \<lparr> confidence_score = 46/75, completeness_score = 2/5, reliability_score = 4/5,
         coherence_score = 2/3 \<rparr>"
  by (simp add: assess_quality_def credibility_scores_def demo_summaries_def demo_sections_def Let_def)

theorem confidence_score_formula_witness:
  "(\<exists>report. process_report (str ''ai'') demo_summarization demo_sections
                = (Inr report :: unit error + final_report)
       \<and> fr_confidence_score report = 46/75 \<and> fr_completeness_score report = 2/5)"
proof -
  have v: "\<forall>s \<in> set (so_summaries demo_summarization). valid_document_summary s"
    by (simp add: demo_summarization_def demo_summaries_def valid_document_summary_def)
  have n: "length demo_summaries = 2" "length demo_sections = 2"
    "so_summaries demo_summarization = demo_summaries"
    by (simp_all add: demo_summarization_def demo_summaries_def demo_sections_def)
  show ?thesis
    using confidence_score_formula [OF v, of "str ''ai''" demo_sections, where ?'e = unit]
    by (auto simp add: n demo_quality)
qed

section \<open>Properties of the pipeline\<close>

lemma check_duplicates_step_documents:
  "er_documents (check_duplicates_step md5 vm extraction_data)
     = filter (\<lambda>doc. md5 (doc_content doc) \<notin> content_hashes vm) (er_documents extraction_data)"
proof (cases "filter (\<lambda>doc. is_duplicate md5 vm (doc_content doc)) (er_documents extraction_data) = []")
  case True
  then have "\<forall>doc \<in> set (er_documents extraction_data). \<not> is_duplicate md5 vm (doc_content doc)"
    by (simp add: filter_empty_conv)
  then have "filter (\<lambda>doc. md5 (doc_content doc) \<notin> content_hashes vm) (er_documents extraction_data)
               = er_documents extraction_data"
    by (simp add: is_duplicate_def)
  with True show ?thesis
    by (simp add: check_duplicates_step_def Let_def)
next
  case False
  then have "er_documents extraction_data \<noteq> []" by auto
  with False show ?thesis
    by (simp add: check_duplicates_step_def Let_def is_duplicate_def)
qed

lemma demo_retrieve:
  "retrieve_context_for_query probe_collaborators now tpc use_cache empty_ms
     = Inr \<lparr> ctx_semantic_context = [], ctx_cached_result = None \<rparr>"
  by (simp add: retrieve_context_for_query_def probe_collaborators_def empty_ms_def empty_am_def
        get_research_result_def)

lemma demo_check_duplicates:
  "check_duplicates_step md5 empty_vm demo_extraction = demo_extraction"
  by (simp add: check_duplicates_step_def demo_extraction_def is_duplicate_def empty_vm_def)

text \<open>
  Claim C1, at the failing input: the memory is empty and the Extractor returns two
  documents of the same content. The duplicate check keeps both, and the Summarizer is
  given two documents (the sample Summarizer raises with the number it received).
\<close>

theorem duplicate_documents_reach_summarizer:
  "doc_content (er_documents demo_extraction ! 0) = doc_content (er_documents demo_extraction ! 1)
   \<and> er_successful_extractions demo_extraction = 2
   \<and> er_documents (check_duplicates_step md5 (vector_memory empty_ms) demo_extraction)
       = er_documents demo_extraction
   \<and> research_complete_pipeline_with_memory probe_collaborators md5 coll_add isoformat now later
         tpc (IntArg 3) True empty_ms
       = (empty_ms, Inl (External 2))"
proof -
  have vm: "vector_memory empty_ms = empty_vm"
    by (simp add: empty_ms_def)
  have run: "research_complete_pipeline_with_memory probe_collaborators md5 coll_add isoformat now
               later tpc (IntArg 3) True empty_ms = (empty_ms, Inl (External 2))"
    unfolding research_complete_pipeline_with_memory_def Let_def demo_retrieve vm
    by (simp add: probe_collaborators_def demo_check_duplicates)
       (simp add: demo_extraction_def)
  show ?thesis
    using run by (simp add: vm demo_check_duplicates) (simp add: demo_extraction_def demo_document_def)
qed

text \<open>
  Claim C5, as the code has it. When the retrieval of the context or one of the four
  stages raises, the pipeline ends with that exception: the caller gets the exception,
  not a string, and the memory, conversation log included, is as it was.
\<close>

theorem pipeline_stage_failure:
  "(retrieve_context_for_query cs now tpc use_cache ms = Inl e \<longrightarrow>
      research_complete_pipeline_with_memory cs md5 coll_add isoformat now later tpc arg use_cache ms
        = (ms, Inl e))
   \<and> (retrieve_context_for_query cs now tpc use_cache ms = Inr ctx
        \<and> (use_cache \<longrightarrow> ctx_cached_result ctx = None)
        \<and> stage_raises cs md5 ms tpc arg e \<longrightarrow>
      research_complete_pipeline_with_memory cs md5 coll_add isoformat now later tpc arg use_cache ms
        = (ms, Inl e))"
  by (auto simp add: research_complete_pipeline_with_memory_def stage_raises_def Let_def
        split: sum.splits option.splits)

lemma failing_retrieve:
  "retrieve_context_for_query failing_collaborators now tpc use_cache empty_ms
     = Inr \<lparr> ctx_semantic_context = [], ctx_cached_result = None \<rparr>"
  by (simp add: retrieve_context_for_query_def failing_collaborators_def empty_ms_def empty_am_def
        get_research_result_def)

theorem pipeline_stage_failure_witness:
  "stage_raises failing_collaborators id empty_ms (str ''ai'') (IntArg 3) (External ())
   \<and> research_complete_pipeline_with_memory failing_collaborators id coll_append (\<lambda>t. []) 0 1
        (str ''ai'') (IntArg 3) True empty_ms
      = (empty_ms, Inl (External ()))"
proof -
  have s: "stage_raises failing_collaborators id empty_ms (str ''ai'') (IntArg 3) (External ())"
    by (simp add: stage_raises_def failing_collaborators_def)
  show ?thesis
    using pipeline_stage_failure [of failing_collaborators 0 "str ''ai''" True empty_ms "External ()"
            id coll_append "\<lambda>t. []" 1 "IntArg 3"
            "\<lparr> ctx_semantic_context = [], ctx_cached_result = None \<rparr>"]
          failing_retrieve s
    by simp
qed

text \<open>
  The claim as the specification states it fails: the search raises, and the call ends
  with that exception and an untouched, empty conversation log; no string is returned and
  no entry is appended.
\<close>

theorem pipeline_error_counterexample:
  "research_complete_pipeline_with_memory failing_collaborators id coll_append (\<lambda>t. []) 0 1
        (str ''ai'') (IntArg 3) True empty_ms
      = (empty_ms, Inl (External ()))
   \<and> conversation_history (agent_memory empty_ms) = []"
  unfolding research_complete_pipeline_with_memory_def Let_def failing_retrieve
  by (simp add: failing_collaborators_def empty_ms_def empty_am_def)

text \<open>
  Beyond the claims: no run of the pipeline returns a string or appends to the
  conversation log, since every path that is past the stages reads
  \<open>final_report.formatted_outputs\<close>.
\<close>

lemma process_research_result_raises:
  "snd (process_research_result md5 coll_add now tpc ed sd gs ms) \<noteq> Inr u"
  by (simp add: process_research_result_def final_report_formatted_outputs_def Let_def
        split: prod.splits sum.splits)

lemma process_research_result_agent_memory:
  "agent_memory (fst (process_research_result md5 coll_add now tpc ed sd gs ms)) = agent_memory ms"
  by (simp add: process_research_result_def final_report_formatted_outputs_def Let_def
        split: prod.splits sum.splits)

lemma pipeline_never_returns:
  "snd (research_complete_pipeline_with_memory cs md5 coll_add isoformat now later tpc arg use_cache ms)
     \<noteq> Inr report"
proof -
  have p: "process_research_result md5 coll_add later tpc ed sd gs ms \<noteq> (ms1, Inr u)" for ed sd gs ms1 u
    using process_research_result_raises [of md5 coll_add later tpc ed sd gs ms u]
    by (metis snd_conv)
  show ?thesis
    by (auto simp add: research_complete_pipeline_with_memory_def final_report_formatted_outputs_def
          Let_def p split: sum.splits option.splits prod.splits)
qed

lemma pipeline_keeps_agent_memory:
  "agent_memory (fst (research_complete_pipeline_with_memory cs md5 coll_add isoformat now later tpc
                        arg use_cache ms)) = agent_memory ms"
proof -
  have p: "process_research_result md5 coll_add later tpc ed sd gs ms = (ms1, r)
           \<Longrightarrow> agent_memory ms1 = agent_memory ms" for ed sd gs ms1 r
    using process_research_result_agent_memory [of md5 coll_add later tpc ed sd gs ms]
    by simp
  show ?thesis
    by (auto simp add: research_complete_pipeline_with_memory_def final_report_formatted_outputs_def
          Let_def split: sum.splits option.splits prod.splits dest: p)
qed

section \<open>Properties of the Content Extractor\<close>

lemma length_truncation_marker: "length truncation_marker = 21"
  by (simp add: truncation_marker_def str_def)

text \<open>A text without control characters, tabs, double spaces and newlines, that starts
  and ends with a character that is no whitespace, is left as it is.\<close>

lemma clean_content_plain:
  assumes "s \<noteq> []" and "\<forall>c \<in> set s. \<not> is_control c" and "sub_spaces_tabs s = s"
    and "10 \<notin> set s" and "\<not> isspace (hd s)" and "\<not> isspace (last s)"
  shows "clean_content s = s"
proof -
  have f: "filter (\<lambda>c. \<not> is_control c) s = s"
    using assms(2) by (simp add: filter_id_conv)
  have b: "sub_blank_lines s = s"
    using sub_blank_acc_no_newline [of "[]" s 3] assms(4) by (simp add: sub_blank_lines_def)
  have st: "strip s = s"
    using assms(1,5,6) by (rule strip_plain)
  have n: "sub_newlines s = s"
    using assms(4) by (simp add: sub_newlines_def sub_newlines_acc_absent)
  show ?thesis
    using assms(1)
    by (simp add: clean_content_def Let_def f assms(3) b split_on_absent [OF assms(4)] st n)
qed

lemma truncated_content:
  "slice_to (replicate 49940 97 @ thirty_words) 50000 @ truncation_marker
     = replicate 49940 97 @ truncated_tail"
  by (simp add: slice_to_def thirty_words_def truncated_tail_def str_def)

lemma truncated_again:
  "slice_to (replicate 49940 97 @ truncated_tail) 50000 @ truncation_marker
     = replicate 49940 97 @ truncated_tail"
  by (simp add: slice_to_def truncated_tail_def truncation_marker_def str_def)

lemma thirty_words_facts:
  "length thirty_words = 90"
  "10 \<notin> set thirty_words"
  "sub_runs_acc isspace False thirty_words = thirty_words"
  "\<not> isspace (last thirty_words)"
  "thirty_words \<noteq> []"
  by (simp_all add: thirty_words_def str_def isspace_def)

text \<open>The fetcher has cut the page already, to 50021 characters.\<close>

lemma demo_web_clean_text: "web_clean_text page_text = replicate 49940 97 @ truncated_tail"
proof -
  have w: "sub_whitespace page_text = page_text"
    unfolding sub_whitespace_def page_text_def
    by (subst sub_runs_acc_prefix) (simp_all add: thirty_words_facts(3) isspace_def)
  have b: "sub_blank_line page_text = page_text"
    using sub_blank_acc_no_newline [of "[]" page_text 2] thirty_words_facts(2)
    by (simp add: sub_blank_line_def page_text_def)
  have s: "strip page_text = page_text"
    unfolding page_text_def
    using thirty_words_facts(4,5) by (intro strip_plain) (simp_all add: hd_append isspace_def)
  have n: "length page_text = 50030" "page_text \<noteq> []"
    by (simp_all add: page_text_def thirty_words_facts(1))
  show ?thesis
    using truncated_content
    by (simp add: web_clean_text_def Let_def w b s n) (simp add: page_text_def)
qed

lemma demo_apply_filters:
  "apply_content_filters lower demo_filters [long_document] = [long_document]"
proof -
  have c: "doc_content long_document = replicate 49940 97 @ truncated_tail"
    by (simp add: long_document_def demo_web_clean_text)
  have n: "length (replicate 49940 (97::nat) @ truncated_tail) = 50021"
    by (simp add: truncated_tail_def truncation_marker_def str_def)
  have f: "cf_min_content_length demo_filters = Some 200"
    "cf_max_content_length demo_filters = Some 50000"
    "cf_language demo_filters = None" "cf_required_keywords demo_filters = Some []"
    by (simp_all add: demo_filters_def research_filters_def demo_research_output_def
          demo_query_def)
  have u: "long_document\<lparr>doc_content := doc_content long_document\<rparr> = long_document"
    by simp
  show ?thesis
    apply (simp only: apply_content_filters.simps Let_def f c n option.case)
    apply (simp add: truncated_again)
    using c u apply simp
    done
qed

lemma truncated_tail_facts:
  "length truncated_tail = 81"
  "\<forall>c \<in> set truncated_tail. \<not> is_control c"
  "10 \<notin> set truncated_tail"
  "sub_runs_acc (\<lambda>c. c = 32 \<or> c = 9) False truncated_tail = truncated_tail"
  "\<not> isspace (last truncated_tail)"
  "truncated_tail \<noteq> []"
  by (simp_all add: truncated_tail_def truncation_marker_def str_def is_control_def isspace_def)

lemma truncated_tail_words:
  "length (split_acc (replicate 49940 97) truncated_tail) = 23"
  by (simp add: truncated_tail_def truncation_marker_def str_def isspace_def)

lemma demo_clean_content:
  "clean_content (replicate 49940 97 @ truncated_tail) = replicate 49940 97 @ truncated_tail"
proof (rule clean_content_plain)
  show "replicate 49940 (97::nat) @ truncated_tail \<noteq> []" by simp
  show "\<forall>c \<in> set (replicate 49940 97 @ truncated_tail). \<not> is_control c"
    using truncated_tail_facts(2) by (auto simp add: is_control_def)
  show "sub_spaces_tabs (replicate 49940 97 @ truncated_tail) = replicate 49940 97 @ truncated_tail"
    unfolding sub_spaces_tabs_def
    by (subst sub_runs_acc_prefix) (simp_all add: truncated_tail_facts(4))
  show "10 \<notin> set (replicate 49940 97 @ truncated_tail)"
    using truncated_tail_facts(3) by simp
  show "\<not> isspace (hd (replicate 49940 97 @ truncated_tail))"
    by (simp add: hd_append isspace_def)
  show "\<not> isspace (last (replicate 49940 97 @ truncated_tail))"
    using truncated_tail_facts(5,6) by simp
qed

lemma demo_word_count:
  "length (split_ws (replicate 49940 97 @ truncated_tail)) = 23"
  using split_acc_replicate [of 97 "[]" 49940 truncated_tail] truncated_tail_words
  by (simp add: split_ws_def isspace_def)

text \<open>
  Claim C4, at the failing input: a page whose text has 50030 characters, fetched for
  the pipeline (filters \<open>min_content_length = 200\<close>, \<open>max_content_length = 50000\<close>).
  The fetcher keeps the first 50000 characters and appends the marker; the filter of
  the agent does the same again, and the Extractor emits a document of 50021 characters.
\<close>

theorem truncated_document_exceeds_maximum:
  "doc_content long_document = web_clean_text page_text
   \<and> extracted_documents lower demo_filters [long_document]
     = [long_document\<lparr>doc_content := replicate 49940 97 @ truncated_tail, doc_word_count := 23\<rparr>]
   \<and> length (replicate 49940 (97::nat) @ truncated_tail) = 50021
   \<and> cf_max_content_length demo_filters = Some 50000"
proof -
  have g: "filters_given demo_filters"
    by (simp add: filters_given_def demo_filters_def research_filters_def)
  have c: "doc_content long_document = replicate 49940 97 @ truncated_tail"
    by (simp add: long_document_def demo_web_clean_text)
  have v: "is_valid_document
             (long_document\<lparr>doc_content := replicate 49940 97 @ truncated_tail, doc_word_count := 23\<rparr>)"
    using truncated_tail_facts(1,5,6)
    by (simp add: is_valid_document_def strip_plain hd_append isspace_def)
  have m: "cf_max_content_length demo_filters = Some 50000"
    by (simp add: demo_filters_def research_filters_def)
  have e: "extract_all_content lower demo_filters [long_document] = [long_document]"
    using g demo_apply_filters by (simp only: extract_all_content_def if_True)
  have p: "post_process_documents [long_document]
             = [long_document\<lparr>doc_content := replicate 49940 97 @ truncated_tail,
                                doc_word_count := 23\<rparr>]"
    using v by (simp add: post_process_documents_def c demo_clean_content demo_word_count Let_def)
  show ?thesis
    unfolding extracted_documents_def e p
    by (simp add: truncated_tail_facts(1) m) (simp add: long_document_def)
qed

text \<open>The same happens in \<open>WebContentExtractor._clean_text\<close>, whose bound is fixed.\<close>

lemma web_clean_text_length: "length (web_clean_text txt) \<le> 50021"
  by (simp add: web_clean_text_def Let_def slice_to_def length_truncation_marker)

lemma web_clean_text_exceeds:
  "web_clean_text (replicate 50001 97) = replicate 50000 97 @ truncation_marker
   \<and> length (web_clean_text (replicate 50001 97)) = 50021"
proof -
  have a: "\<forall>c \<in> set (replicate 50001 (97::nat)). \<not> isspace c"
    by (simp add: isspace_def)
  have w: "sub_whitespace (replicate 50001 97) = replicate 50001 97"
    using sub_runs_acc_prefix [of "replicate 50001 97" isspace False "[]"] a
    by (simp add: sub_whitespace_def)
  have b: "sub_blank_line (replicate 50001 97) = replicate 50001 97"
    using sub_blank_acc_no_newline [of "[]" "replicate 50001 97" 2]
    by (simp add: sub_blank_line_def)
  have s: "strip (replicate 50001 97) = replicate 50001 97"
    by (rule strip_plain) (simp_all add: isspace_def)
  show ?thesis
    by (simp add: web_clean_text_def Let_def w b s slice_to_def length_truncation_marker)
qed

section \<open>Properties of the Chunker\<close>

lemma sub_whitespace_no_newline: "10 \<notin> set (sub_whitespace text)"
  using sub_runs_acc_set [of 10 isspace False "text"] isspace_newline
  by (auto simp add: sub_whitespace_def)

lemma clean_text_no_newline: "10 \<notin> set (clean_text text)"
proof -
  have "sub_blank_lines (sub_whitespace text) = sub_whitespace text"
    using sub_blank_acc_no_newline [of "[]" "sub_whitespace text" 3] sub_whitespace_no_newline
    by (simp add: sub_blank_lines_def)
  then have "clean_text text = strip (sub_whitespace text)"
    by (simp add: clean_text_def)
  then show ?thesis
    using set_strip [of "sub_whitespace text"] sub_whitespace_no_newline [of "text"] by auto
qed

text \<open>After the cleaning the text has no blank line, and no newline at all: the split
  into paragraphs gives the text back as its one paragraph.\<close>

lemma split_paragraphs_clean_text: "split_paragraphs (clean_text text) = [clean_text text]"
  using split_blank_acc_no_newline [of "[]" "clean_text text" "[]"] clean_text_no_newline
  by (simp add: split_paragraphs_def)

lemma clean_text_nonempty:
  assumes "strip text \<noteq> []"
  shows "strip (clean_text text) \<noteq> []" and "clean_text text \<noteq> []"
proof -
  from assms obtain c where "c \<in> set text" "\<not> isspace c"
    by (auto simp add: strip_empty_iff)
  then have "\<exists>c \<in> set (sub_whitespace text). \<not> isspace c"
    using sub_runs_acc_keeps [of "text" isspace False] by (auto simp add: sub_whitespace_def)
  then have "strip (sub_whitespace text) \<noteq> []"
    by (simp add: strip_empty_iff)
  moreover have "clean_text text = strip (sub_whitespace text)"
    using sub_blank_acc_no_newline [of "[]" "sub_whitespace text" 3] sub_whitespace_no_newline
    by (simp add: clean_text_def sub_blank_lines_def)
  ultimately show "strip (clean_text text) \<noteq> []" and "clean_text text \<noteq> []"
    by (simp_all add: strip_strip)
qed

lemma strip_clean_text: "strip (clean_text text) = clean_text text"
proof -
  have "clean_text text = strip (sub_blank_lines (sub_whitespace text))"
    by (simp add: clean_text_def)
  then show ?thesis by (simp add: strip_strip)
qed

lemma chunk_with_structure_clean_text:
  assumes "strip text \<noteq> []"
  shows "chunk_with_structure cfg dh (clean_text text)
           = [create_chunk dh (clean_text text) 0 (int (length (clean_text text))) 1]"
  using clean_text_nonempty [OF assms]
  by (simp add: chunk_with_structure_def split_paragraphs_clean_text strip_clean_text)

lemma post_process_chunks_single:
  "post_process_chunks cfg [c] = [c\<lparr>chunk_id := 1, total_chunks := 1\<rparr>]"
  by (simp add: post_process_chunks_def)

lemma content_create_chunk: "content (create_chunk dh c a b n) = c"
  by (simp add: create_chunk_def split: prod.splits)

text \<open>
  With \<open>preserve_structure\<close>, \<open>chunk_text\<close> returns nothing for a blank text and one
  chunk otherwise, whatever the length of the text: its content is the cleaned text.
\<close>

lemma chunk_text_contents:
  "map content (chunk_text cfg dh text True) = (if strip text = [] then [] else [clean_text text])"
proof (cases "strip text = []")
  case True
  then show ?thesis by (simp add: chunk_text_def)
next
  case False
  then have "text \<noteq> []" by (auto simp add: strip_def)
  with False show ?thesis
    by (simp add: chunk_text_def Let_def chunk_with_structure_clean_text
          post_process_chunks_single content_create_chunk)
qed

lemma clean_text_eq: "clean_text text = strip (sub_whitespace text)"
  using sub_blank_acc_no_newline [of "[]" "sub_whitespace text" 3] sub_whitespace_no_newline
  by (simp add: clean_text_def sub_blank_lines_def)

text \<open>
  Two paragraphs, of \<open>n\<close> letters \<open>a\<close> and of \<open>m\<close> letters \<open>b\<close>, with a blank line
  between them: the cleaning joins them by one space.
\<close>

lemma clean_text_two_paragraphs:
  assumes "0 < n" and "0 < m"
  shows "clean_text (replicate n 97 @ [10, 10] @ replicate m 98)
           = replicate n 97 @ [32] @ replicate m 98"
proof -
  have a: "\<forall>c \<in> set (replicate n (97::nat)). \<not> isspace c"
    and b: "\<forall>c \<in> set (replicate m (98::nat)). \<not> isspace c"
    by (simp_all add: isspace_def)
  have "sub_whitespace (replicate n 97 @ [10, 10] @ replicate m 98)
          = replicate n 97 @ sub_runs_acc isspace False ([10, 10] @ replicate m 98)"
    unfolding sub_whitespace_def using a assms(1) by (intro sub_runs_acc_prefix) simp_all
  also have "sub_runs_acc isspace False ([10, 10] @ replicate m 98)
          = 32 # sub_runs_acc isspace True (replicate m 98)"
    by (simp add: isspace_newline)
  also have "sub_runs_acc isspace True (replicate m 98) = replicate m 98"
    using b by (rule sub_runs_acc_plain)
  finally have w: "sub_whitespace (replicate n 97 @ [10, 10] @ replicate m 98)
          = replicate n 97 @ [32] @ replicate m 98"
    by simp
  have "strip (replicate n 97 @ [32] @ replicate m 98) = replicate n 97 @ [32] @ replicate m 98"
  proof (rule strip_plain)
    show "replicate n (97::nat) @ [32] @ replicate m 98 \<noteq> []" by simp
    show "\<not> isspace (hd (replicate n 97 @ [32] @ replicate m 98))"
      using assms(1) by (simp add: hd_append isspace_def)
    show "\<not> isspace (last (replicate n 97 @ [32] @ replicate m 98))"
      using assms(2) by (simp add: isspace_def)
  qed
  with w show ?thesis by (simp add: clean_text_eq)
qed

lemma clean_text_two_paragraphs':
  "0 < n \<Longrightarrow> 0 < m \<Longrightarrow>
   clean_text (replicate n 97 @ 10 # 10 # replicate m 98) = replicate n 97 @ 32 # replicate m 98"
  using clean_text_two_paragraphs [of n m] by simp

text \<open>
  Claim C3, at the failing input: two paragraphs of 3000 characters with a blank line
  between them, for the chunker of the strategy \<open>default\<close> (at most 4000 characters for
  a chunk). The text is not split at the blank line: \<open>chunk_text\<close> returns one chunk,
  of 6001 characters, that holds both paragraphs.
\<close>

theorem chunker_keeps_paragraphs_together:
  "map content (chunk_text default_chunker detect_heading
                  (replicate 3000 97 @ [10, 10] @ replicate 3000 98) True)
     = [replicate 3000 97 @ [32] @ replicate 3000 98]
   \<and> length (replicate 3000 (97::nat) @ [32] @ replicate 3000 98) = 6001
   \<and> max_chunk_size default_chunker = 4000"
proof -
  have "strip (replicate 3000 97 @ [10, 10] @ replicate 3000 98) \<noteq> []"
    by (simp add: strip_empty_iff isspace_def)
  then show ?thesis
    by (simp add: chunk_text_contents clean_text_two_paragraphs' default_chunker_def)
qed

text \<open>
  Without \<open>preserve_structure\<close> the text is split at the ends of sentences, and a chunk
  that is not the last one may be longer than \<open>max_chunk_size\<close>: 13 characters here, for
  a bound of 10.
\<close>

lemma chunk_simple_oversize:
  "map content (chunk_text small_chunker no_heading (str ''aaaaaaaaaaaa. bbb. cc'') False)
     = [str ''aaaaaaaaaaaa.'', str ''. bbb. cc.'']"
  by (simp add: chunk_text_def clean_text_def sub_whitespace_def sub_blank_lines_def
        sub_in_run_def count_newlines_def strip_def chunk_simple_def split_sentences_def
        is_sentence_end_def get_overlap_text_def slice_from_def post_process_chunks_def
        create_chunk_def small_chunker_def no_heading_def isspace_def str_def Let_def)

end
